theory Spec2Isabelle
  imports Complex_Main "HOL-Library.Multiset"
begin

section \<open>JavaScript values\<close>

text \<open>
  The bundle is compiled TypeScript. Payloads are taken to be typed as the TypeScript classes
  declare them: a field declared as a number is a number, an array is an array, and the payload
  object itself is present. What stays dynamic in the source is kept dynamic here: a field of
  the page that has not been assigned yet (or was assigned \<open>null\<close>) is \<open>None\<close>, and an array
  read outside its bounds yields \<open>undefined\<close>, again \<open>None\<close>.
\<close>

text \<open>
  What a promise is rejected with. \<open>TypeError\<close> is thrown by the page's or an entity's own code.
  \<open>GatewayRejected\<close> stands for the reason a gateway promise was rejected with: the request
  failed, or building the entity from the answer threw; which of the two is not kept.
\<close>

datatype error = TypeError | GatewayRejected

text \<open>\<open>xs[i]\<close>: the element, or \<open>undefined\<close> outside the array.\<close>

definition js_nth :: "'a list \<Rightarrow> int \<Rightarrow> 'a option" where
  "js_nth xs i = (if 0 \<le> i \<and> nat i < length xs then Some (xs ! nat i) else None)"

text \<open>\<open>xs[0]\<close>.\<close>

definition js_first :: "'a list \<Rightarrow> 'a option" where
  "js_first xs = (case xs of [] \<Rightarrow> None | v # _ \<Rightarrow> Some v)"

text \<open>Truthiness of a string-valued field: \<open>undefined\<close>, \<open>null\<close> and the empty string are falsy.\<close>

definition truthy_string :: "string option \<Rightarrow> bool" where
  "truthy_string v = (case v of None \<Rightarrow> False | Some str \<Rightarrow> str \<noteq> [])"

text \<open>Decimal rendering of an integer, as string concatenation with a number prints it:
  all decimal digits, for the integers a number holds exactly (magnitude up to \<open>2^53\<close>).\<close>

fun digits10 :: "nat \<Rightarrow> string" where
  "digits10 n =
     (if n < 10 then [''0123456789'' ! n]
      else digits10 (n div 10) @ [''0123456789'' ! (n mod 10)])"

definition number_toString :: "int \<Rightarrow> string" where
  "number_toString i = (if i < 0 then CHR ''-'' # digits10 (nat (- i)) else digits10 (nat i))"

text \<open>Opaque JSON that the client only passes through.\<close>

datatype json =
    JNull
  | JBool bool
  | JNumber real
  | JString string
  | JArray "json list"
  | JObject "(string \<times> json) list"

section \<open>Entities\<close>

text \<open>\<open>src/environments/environment.ts\<close>\<close>

record Environment =
  production :: bool
  apiBaseUrl :: string

definition environment :: Environment where
  "environment = \<lparr>production = False, apiBaseUrl = ''http://localhost:8080''\<rparr>"

text \<open>\<open>src/services/analyses/embedding.ts\<close>. The field \<open>value\<close> of the source is \<open>val\<close>.\<close>

record Embedding =
  cluster :: int
  attributionIndex :: int
  val :: "real list"

definition new_Embedding :: "Embedding \<Rightarrow> Embedding" where
  "new_Embedding embedding =
     \<lparr>cluster = cluster embedding,
      attributionIndex = attributionIndex embedding,
      val = val embedding\<rparr>"

text \<open>\<open>src/services/analyses/analysis.ts\<close>\<close>

record Analysis =
  categoryName :: string
  humanReadableCategoryName :: string
  clusteringName :: string
  embeddingName :: string
  embedding :: "Embedding list"
  eigenValues :: "real list"
  baseEmbeddingName :: "string option"
  baseEmbeddingAxesIndices :: "int list option"

definition new_Analysis :: "Analysis \<Rightarrow> Analysis" where
  "new_Analysis analysis =
     \<lparr>categoryName = categoryName analysis,
      humanReadableCategoryName = humanReadableCategoryName analysis,
      clusteringName = clusteringName analysis,
      embeddingName = embeddingName analysis,
      embedding = map new_Embedding (embedding analysis),
      eigenValues = eigenValues analysis,
      baseEmbeddingName = baseEmbeddingName analysis,
      baseEmbeddingAxesIndices = baseEmbeddingAxesIndices analysis\<rparr>"

text \<open>\<open>src/services/projects/analysis-category.ts\<close>, \<open>analysis-method.ts\<close>, \<open>project.ts\<close>.
  The field \<open>id\<close> of a project is \<open>ident\<close>.\<close>

record AnalysisCategory =
  name :: string
  humanReadableName :: string

definition new_AnalysisCategory :: "AnalysisCategory \<Rightarrow> AnalysisCategory" where
  "new_AnalysisCategory analysisCategory =
     \<lparr>AnalysisCategory.name = AnalysisCategory.name analysisCategory,
      AnalysisCategory.humanReadableName = AnalysisCategory.humanReadableName analysisCategory\<rparr>"

record AnalysisMethod =
  name :: string
  categories :: "AnalysisCategory list"
  clusterings :: "string list"
  embeddings :: "string list"

definition new_AnalysisMethod :: "AnalysisMethod \<Rightarrow> AnalysisMethod" where
  "new_AnalysisMethod analysisMethod =
     \<lparr>AnalysisMethod.name = AnalysisMethod.name analysisMethod,
      categories = map new_AnalysisCategory (categories analysisMethod),
      clusterings = clusterings analysisMethod,
      embeddings = embeddings analysisMethod\<rparr>"

record Project =
  ident :: int
  name :: string
  model :: string
  dataset :: string
  analysisMethods :: "AnalysisMethod list"

definition new_Project :: "Project \<Rightarrow> Project" where
  "new_Project project =
     \<lparr>ident = ident project,
      Project.name = Project.name project,
      model = model project,
      dataset = dataset project,
      analysisMethods = map new_AnalysisMethod (analysisMethods project)\<rparr>"

text \<open>\<open>src/services/dataset/sample.ts\<close>. \<open>labels\<close> is a single string or a list of strings.\<close>

datatype labels = Label string | Labels "string list"

record Sample =
  index :: int
  labels :: labels
  width :: int
  height :: int
  url :: string

definition new_Sample :: "Sample \<Rightarrow> string option \<Rightarrow> Sample" where
  "new_Sample sample baseUrl =
     (let this = \<lparr>Sample.index = Sample.index sample,
                  Sample.labels = Sample.labels sample,
                  Sample.width = Sample.width sample,
                  Sample.height = Sample.height sample,
                  Sample.url = Sample.url sample\<rparr>
      in if truthy_string baseUrl then this\<lparr>Sample.url := the baseUrl @ Sample.url this\<rparr>
         else this)"

text \<open>\<open>src/services/colorMaps/color-map.ts\<close>\<close>

record ColorMap =
  name :: string
  humanReadableName :: string
  url :: string

definition new_ColorMap :: "ColorMap \<Rightarrow> string option \<Rightarrow> ColorMap" where
  "new_ColorMap colorMap baseUrl =
     (let this = \<lparr>ColorMap.name = ColorMap.name colorMap,
                  ColorMap.humanReadableName = ColorMap.humanReadableName colorMap,
                  ColorMap.url = ColorMap.url colorMap\<rparr>
      in if truthy_string baseUrl then this\<lparr>ColorMap.url := the baseUrl @ ColorMap.url this\<rparr>
         else this)"

text \<open>
  \<open>src/services/attributions/attribution.ts\<close>. The payload's \<open>urls\<close> is an object from color
  map name to relative URL: its own properties in enumeration order, as name/value pairs.
  The constructor walks the property names once and overwrites each property in place. It asks
  the object itself for \<open>hasOwnProperty\<close>, so a payload with a color map of that name makes the
  constructor throw.
\<close>

record AttributionPayload =
  index :: int
  labels :: labels
  prediction :: json
  width :: int
  height :: int
  url :: string
  urls :: "(string \<times> string) list"

record Attribution =
  index :: int
  labels :: labels
  prediction :: json
  width :: int
  height :: int
  url :: string
  urls :: "(string \<times> string) list"
  sample :: "Sample option"

text \<open>\<open>urls[colorMap] = v\<close> on an object: overwrite the property, or add it at the end.\<close>

fun object_set :: "(string \<times> string) list \<Rightarrow> string \<Rightarrow> string \<Rightarrow> (string \<times> string) list" where
  "object_set [] k v = [(k, v)]"
| "object_set ((k', v') # ps) k v = (if k' = k then (k, v) # ps else (k', v') # object_set ps k v)"

text \<open>\<open>baseUrl + urls[colorMap]\<close>; a missing property reads as \<open>undefined\<close>.\<close>

definition prefixed :: "string \<Rightarrow> (string \<times> string) list \<Rightarrow> string \<Rightarrow> string" where
  "prefixed baseUrl ps k =
     (case map_of ps k of None \<Rightarrow> baseUrl @ ''undefined'' | Some v \<Rightarrow> baseUrl @ v)"

text \<open>
  \<open>this.urls.hasOwnProperty(colorMap)\<close>: the method is looked up on the object first. An own
  property of that name holds a string, and calling a string throws; otherwise the method of
  \<open>Object.prototype\<close> answers whether the object has the property itself.
\<close>

definition object_hasOwnProperty :: "(string \<times> string) list \<Rightarrow> string \<Rightarrow> error + bool" where
  "object_hasOwnProperty ps k =
     (case map_of ps ''hasOwnProperty'' of
        Some _ \<Rightarrow> Inl TypeError
      | None \<Rightarrow> Inr (map_of ps k \<noteq> None))"

text \<open>The \<open>for (var colorMap in this.urls)\<close> loop over the property names found at its start.\<close>

fun prefix_urls :: "string \<Rightarrow> string list \<Rightarrow> (string \<times> string) list \<Rightarrow> error + (string \<times> string) list" where
  "prefix_urls baseUrl [] ps = Inr ps"
| "prefix_urls baseUrl (colorMap # rest) ps =
     (case object_hasOwnProperty ps colorMap of
        Inl err \<Rightarrow> Inl err
      | Inr own \<Rightarrow>
          if own then prefix_urls baseUrl rest (object_set ps colorMap (prefixed baseUrl ps colorMap))
          else prefix_urls baseUrl rest ps)"

text \<open>The constructor: the new attribution, or what it throws.\<close>

definition new_Attribution :: "AttributionPayload \<Rightarrow> string option \<Rightarrow> error + Attribution" where
  "new_Attribution attribution baseUrl =
     (let this = \<lparr>Attribution.index = AttributionPayload.index attribution,
                  Attribution.labels = AttributionPayload.labels attribution,
                  Attribution.prediction = AttributionPayload.prediction attribution,
                  Attribution.width = AttributionPayload.width attribution,
                  Attribution.height = AttributionPayload.height attribution,
                  Attribution.url = AttributionPayload.url attribution,
                  Attribution.urls = AttributionPayload.urls attribution,
                  sample = None\<rparr>
      in if truthy_string baseUrl
         then
           (let this1 = this\<lparr>Attribution.url := the baseUrl @ Attribution.url this\<rparr>
            in case prefix_urls (the baseUrl) (map fst (Attribution.urls this1)) (Attribution.urls this1) of
                 Inl err \<Rightarrow> Inl err
               | Inr ps \<Rightarrow> Inr (this1\<lparr>Attribution.urls := ps\<rparr>))
         else Inr this)"

section \<open>The index page\<close>

text \<open>One trace of the plot (an element of \<open>graphData\<close>); \<open>x\<close> and \<open>y\<close> are \<open>series_x\<close>, \<open>series_y\<close>,
  and \<open>marker: { size: 12 }\<close> is \<open>marker_size\<close>.\<close>

record series =
  name :: string
  series_x :: "real option list"
  series_y :: "real option list"
  trace_type :: string
  mode :: string
  marker_size :: int
  hoverinfo :: string
  attributionIndices :: "int list"

text \<open>The fields of \<open>IndexPage\<close>. A private backing field \<open>_f\<close> is \<open>p_f\<close>; \<open>id\<close> is \<open>page_id\<close>.\<close>

record IndexPage =
  page_id :: "int option"
  project :: "Project option"
  p_horizontalAxisDimensionIndex :: int
  p_verticalAxisDimensionIndex :: int
  p_selectedAnalysisMethod :: "AnalysisMethod option"
  p_selectedCategory :: "AnalysisCategory option"
  p_selectedClustering :: "string option"
  p_selectedEmbedding :: "string option"
  p_analysis :: "Analysis option"
  graphData :: "series list option"
  isLoading :: "bool option"
  colorMaps :: "ColorMap list option"
  selectedColorMap :: "ColorMap option"
  isHovering :: "bool option"
  datasetSampleHoverPreview :: "Sample option"
  isLoadingSelection :: "bool option"
  selectedAttributions :: "Attribution list option"

text \<open>The page as its constructor leaves it.\<close>

definition new_IndexPage :: IndexPage where
  "new_IndexPage =
     \<lparr>page_id = None, project = None,
      p_horizontalAxisDimensionIndex = 0, p_verticalAxisDimensionIndex = 1,
      p_selectedAnalysisMethod = None, p_selectedCategory = None,
      p_selectedClustering = None, p_selectedEmbedding = None,
      p_analysis = None, graphData = None, isLoading = None,
      colorMaps = None, selectedColorMap = None,
      isHovering = None, datasetSampleHoverPreview = None,
      isLoadingSelection = None, selectedAttributions = None\<rparr>"

subsection \<open>\<open>refreshPlot\<close>\<close>

text \<open>The first loop: push every cluster identifier that \<open>clusters\<close> does not hold yet.\<close>

fun collect_clusters :: "int list \<Rightarrow> int list \<Rightarrow> int list" where
  "collect_clusters clusters [] = clusters"
| "collect_clusters clusters (c # rest) =
     collect_clusters (if c \<notin> set clusters then clusters @ [c] else clusters) rest"

text \<open>The body \<open>_loop_1\<close> of the second loop builds the trace of one cluster.\<close>

definition loop_1 :: "IndexPage \<Rightarrow> Analysis \<Rightarrow> int \<Rightarrow> series" where
  "loop_1 this analysis c =
     (let embeddingsInCluster = filter (\<lambda>e. cluster e = c) (embedding analysis)
      in \<lparr>series.name = ''Cluster '' @ number_toString c,
          series_x = map (\<lambda>e. js_nth (val e) (p_horizontalAxisDimensionIndex this)) embeddingsInCluster,
          series_y = map (\<lambda>e. js_nth (val e) (p_verticalAxisDimensionIndex this)) embeddingsInCluster,
          trace_type = ''scatter'',
          mode = ''markers'',
          marker_size = 12,
          hoverinfo = ''none'',
          attributionIndices = map attributionIndex embeddingsInCluster\<rparr>)"

fun push_traces :: "IndexPage \<Rightarrow> Analysis \<Rightarrow> int list \<Rightarrow> series list \<Rightarrow> series list" where
  "push_traces this analysis [] graph = graph"
| "push_traces this analysis (c # rest) graph =
     push_traces this analysis rest (graph @ [loop_1 this analysis c])"

definition refreshPlot :: "IndexPage \<Rightarrow> IndexPage" where
  "refreshPlot this =
     (case p_analysis this of
        None \<Rightarrow> this
      | Some analysis \<Rightarrow>
          (let clusters = collect_clusters [] (map cluster (embedding analysis))
           in this\<lparr>graphData := Some (push_traces this analysis clusters [])\<rparr>))"

subsection \<open>The gateways as the page sees them\<close>

text \<open>
  A call of a gateway method, with the arguments the page passes. The page and the calls it
  has made so far form a \<open>world\<close>: every call is recorded together with the page as it was at
  the moment of the call.
\<close>

datatype call =
    GetProject "int option"
  | GetAnalysis int string string string string
  | GetAttribution int "int option"
  | GetSample int int
  | GetColorMaps

type_synonym world = "IndexPage \<times> (call \<times> IndexPage) list"

text \<open>
  An asynchronous method is compiled to a generator with numbered labels. The code of one
  label runs without interruption and ends by returning, by awaiting what it has requested,
  or by throwing (which rejects the promise of the method). The function \<open>f_n\<close> is the code of
  label \<open>n\<close> of method \<open>f\<close>; from label 1 on it takes what the awaited promise resolved to.
\<close>

datatype 'a step = Return | Await 'a | Throw error

datatype outcome = Fulfilled | Rejected error

subsection \<open>\<open>refreshAnalysisAsync\<close> and the setters\<close>

definition refreshAnalysisAsync_0 :: "world \<Rightarrow> call step \<times> world" where
  "refreshAnalysisAsync_0 w =
     (case w of (this, calls) \<Rightarrow>
        (case p_selectedAnalysisMethod this of
           None \<Rightarrow> (Return, w)
         | Some analysisMethod \<Rightarrow>
        (case p_selectedCategory this of
           None \<Rightarrow> (Return, w)
         | Some category \<Rightarrow>
        (case p_selectedClustering this of
           None \<Rightarrow> (Return, w)
         | Some clustering \<Rightarrow>
        (case p_selectedEmbedding this of
           None \<Rightarrow> (Return, w)
         | Some embedding_name \<Rightarrow>
             if clustering = [] \<or> embedding_name = [] then (Return, w)
             else
               (let this1 = this\<lparr>isLoading := Some True\<rparr>;
                    this2 = this1\<lparr>selectedAttributions := None\<rparr>
                in case project this2 of
                     None \<Rightarrow> (Throw TypeError, (this2, calls))
                   | Some p \<Rightarrow>
                       (let c = GetAnalysis (ident p) (AnalysisMethod.name analysisMethod)
                                  (AnalysisCategory.name category) clustering embedding_name
                        in (Await c, (this2, calls @ [(c, this2)])))))))))"

definition analysis_set :: "Analysis option \<Rightarrow> IndexPage \<Rightarrow> IndexPage" where
  "analysis_set v this = refreshPlot (this\<lparr>p_analysis := v\<rparr>)"

definition refreshAnalysisAsync_1 :: "Analysis \<Rightarrow> world \<Rightarrow> world" where
  "refreshAnalysisAsync_1 sent w =
     (case w of (this, calls) \<Rightarrow>
        (let this1 = analysis_set (Some sent) this
         in (this1\<lparr>isLoading := Some False\<rparr>, calls)))"

definition horizontalAxisDimensionIndex_set :: "int \<Rightarrow> world \<Rightarrow> world" where
  "horizontalAxisDimensionIndex_set v w =
     (case w of (this, calls) \<Rightarrow>
        (refreshPlot (this\<lparr>p_horizontalAxisDimensionIndex := v\<rparr>), calls))"

definition verticalAxisDimensionIndex_set :: "int \<Rightarrow> world \<Rightarrow> world" where
  "verticalAxisDimensionIndex_set v w =
     (case w of (this, calls) \<Rightarrow>
        (refreshPlot (this\<lparr>p_verticalAxisDimensionIndex := v\<rparr>), calls))"

text \<open>The setters start \<open>refreshAnalysisAsync\<close> and drop its promise: only label 0 runs inside them.\<close>

definition selectedCategory_set :: "AnalysisCategory option \<Rightarrow> world \<Rightarrow> world" where
  "selectedCategory_set v w =
     (case w of (this, calls) \<Rightarrow>
        (let w1 = (this\<lparr>p_selectedCategory := v\<rparr>, calls)
         in if v \<noteq> None then snd (refreshAnalysisAsync_0 w1) else w1))"

definition selectedClustering_set :: "string option \<Rightarrow> world \<Rightarrow> world" where
  "selectedClustering_set v w =
     (case w of (this, calls) \<Rightarrow>
        (let w1 = (this\<lparr>p_selectedClustering := v\<rparr>, calls)
         in if truthy_string v then snd (refreshAnalysisAsync_0 w1) else w1))"

definition selectedEmbedding_set :: "string option \<Rightarrow> world \<Rightarrow> world" where
  "selectedEmbedding_set v w =
     (case w of (this, calls) \<Rightarrow>
        (let this1 = this\<lparr>p_selectedEmbedding := v\<rparr>;
             this2 = this1\<lparr>p_horizontalAxisDimensionIndex := 0\<rparr>;
             this3 = this2\<lparr>p_verticalAxisDimensionIndex := 1\<rparr>
         in if truthy_string v then snd (refreshAnalysisAsync_0 (this3, calls)) else (this3, calls)))"

definition selectedAnalysisMethod_set :: "AnalysisMethod option \<Rightarrow> world \<Rightarrow> world" where
  "selectedAnalysisMethod_set v w =
     (case w of (this, calls) \<Rightarrow>
        (let w1 = (this\<lparr>p_selectedAnalysisMethod := v\<rparr>, calls)
         in case v of
              None \<Rightarrow> w1
            | Some analysisMethod \<Rightarrow>
                (let w2 = selectedCategory_set (js_first (categories analysisMethod)) w1;
                     w3 = selectedClustering_set (js_first (clusterings analysisMethod)) w2;
                     w4 = (if length (filter (\<lambda>e. e = ''tsne'') (embeddings analysisMethod)) > 0
                           then selectedEmbedding_set (Some ''tsne'') w3
                           else selectedEmbedding_set (js_first (embeddings analysisMethod)) w3)
                 in snd (refreshAnalysisAsync_0 w4))))"

subsection \<open>\<open>refreshProjectAsync\<close>\<close>

definition refreshProjectAsync_0 :: "world \<Rightarrow> call step \<times> world" where
  "refreshProjectAsync_0 w =
     (case w of (this, calls) \<Rightarrow>
        (let this1 = this\<lparr>isLoading := Some True\<rparr>;
             c = GetProject (page_id this1)
         in (Await c, (this1, calls @ [(c, this1)]))))"

text \<open>
  Label 1 ends in \<open>yield this.refreshAnalysisAsync()\<close>: label 0 of that method runs at once, and
  this label ends as it does. If it returned, label 2 is next; if it awaits an analysis, label 2
  comes after that analysis has arrived and label 1 of \<open>refreshAnalysisAsync\<close> has run; if it
  threw, \<open>refreshProjectAsync\<close> is rejected and label 2 never runs. No setter called here
  assigns the selected analysis method after the first one, so it is read once.
\<close>

definition refreshProjectAsync_1 :: "Project \<Rightarrow> world \<Rightarrow> call step \<times> world" where
  "refreshProjectAsync_1 sent w =
     (case w of (this, calls) \<Rightarrow>
        (let this1 = this\<lparr>project := Some sent\<rparr>;
             this2 = this1\<lparr>selectedAttributions := None\<rparr>;
             w1 = selectedAnalysisMethod_set (js_first (analysisMethods sent)) (this2, calls)
         in case p_selectedAnalysisMethod (fst w1) of
              None \<Rightarrow> (Throw TypeError, w1)
            | Some analysisMethod \<Rightarrow>
                (let w2 = selectedCategory_set (js_first (categories analysisMethod)) w1;
                     w3 = selectedClustering_set (js_first (clusterings analysisMethod)) w2;
                     w4 = (if length (filter (\<lambda>e. e = ''tsne'') (embeddings analysisMethod)) > 0
                           then selectedEmbedding_set (Some ''tsne'') w3
                           else selectedEmbedding_set (js_first (embeddings analysisMethod)) w3)
                 in refreshAnalysisAsync_0 w4)))"

definition refreshProjectAsync_2 :: "world \<Rightarrow> world" where
  "refreshProjectAsync_2 w = (case w of (this, calls) \<Rightarrow> (this\<lparr>isLoading := Some False\<rparr>, calls))"

subsection \<open>\<open>ngOnInit\<close>, after the color maps have arrived\<close>

definition ngOnInit_1 :: "ColorMap list \<Rightarrow> world \<Rightarrow> world" where
  "ngOnInit_1 sent w =
     (case w of (this, calls) \<Rightarrow>
        (let this1 = this\<lparr>colorMaps := Some sent\<rparr>;
             defaultColorMaps = filter (\<lambda>colorMap. ColorMap.name colorMap = ''black-fire-red'') sent
         in if length defaultColorMaps > 0
            then (this1\<lparr>selectedColorMap := js_first defaultColorMaps\<rparr>, calls)
            else (this1\<lparr>selectedColorMap := js_first sent\<rparr>, calls)))"

subsection \<open>\<open>onSelectedAsync\<close>\<close>

text \<open>What the plot hands over on a selection: the selected points, each with its trace.\<close>

record dataPoint =
  data :: series
  pointIndex :: int

record eventInfo =
  points :: "dataPoint list"

text \<open>
  \<open>Promise.all(args.map(function (a) { return service.getAsync(_this.project.id, a); }))\<close>:
  the callback runs once per element, in order, and reads the project each time.
\<close>

definition getAsync_each :: "(int \<Rightarrow> 'a \<Rightarrow> call) \<Rightarrow> 'a list \<Rightarrow> world \<Rightarrow> (int \<times> 'a) list step \<times> world" where
  "getAsync_each service args w =
     (case w of (this, calls) \<Rightarrow>
        if args = [] then (Await [], w)
        else
          (case project this of
             None \<Rightarrow> (Throw TypeError, w)
           | Some p \<Rightarrow>
               (Await (map (\<lambda>a. (ident p, a)) args),
                (this, calls @ map (\<lambda>a. (service (ident p) a, this)) args))))"

definition onSelectedAsync_0 :: "eventInfo option \<Rightarrow> world \<Rightarrow> (int \<times> int option) list step \<times> world" where
  "onSelectedAsync_0 ev w =
     (case w of (this, calls) \<Rightarrow>
        (case ev of
           None \<Rightarrow> (Return, w)
         | Some e \<Rightarrow>
             (let this1 = this\<lparr>isLoadingSelection := Some True\<rparr>;
                  attributionIndices0 =
                    map (\<lambda>dataPoint. js_nth (attributionIndices (data dataPoint)) (pointIndex dataPoint))
                      (points e);
                  attributionIndices1 = take 20 attributionIndices0
              in getAsync_each GetAttribution attributionIndices1 (this1, calls))))"

definition onSelectedAsync_1 :: "Attribution list \<Rightarrow> world \<Rightarrow> (int \<times> int) list step \<times> world" where
  "onSelectedAsync_1 sent w =
     (case w of (this, calls) \<Rightarrow>
        (let this1 = this\<lparr>selectedAttributions := Some sent\<rparr>
         in case selectedAttributions this1 of
              None \<Rightarrow> (Throw TypeError, (this1, calls))
            | Some attributions \<Rightarrow>
                getAsync_each GetSample (map Attribution.index attributions) (this1, calls)))"

text \<open>The body \<open>_loop_2\<close>: the first fetched sample with the attribution's index, if any.\<close>

definition loop_2 :: "Sample list \<Rightarrow> Attribution \<Rightarrow> Attribution" where
  "loop_2 selectedDatasetSamples attribution =
     attribution\<lparr>sample :=
       js_first (filter (\<lambda>s. Sample.index s = Attribution.index attribution) selectedDatasetSamples)\<rparr>"

definition onSelectedAsync_2 :: "Sample list \<Rightarrow> world \<Rightarrow> outcome \<times> world" where
  "onSelectedAsync_2 sent w =
     (case w of (this, calls) \<Rightarrow>
        (case selectedAttributions this of
           None \<Rightarrow> (Rejected TypeError, w)
         | Some attributions \<Rightarrow>
             (let this1 = this\<lparr>selectedAttributions := Some (map (loop_2 sent) attributions)\<rparr>
              in (Fulfilled, (this1\<lparr>isLoadingSelection := Some False\<rparr>, calls)))))"

subsection \<open>The gateways and a whole run of \<open>onSelectedAsync\<close>\<close>

text \<open>
  What the backend answers to each request: the payload, or \<open>None\<close> when the request fails.
  A gateway resolves with the entity built from the payload. Its promise is rejected, \<open>None\<close>
  here, when the request fails and when the constructor of the entity throws.
\<close>

record Backend =
  attributions_payload :: "int \<Rightarrow> int option \<Rightarrow> AttributionPayload option"
  dataset_payload :: "int \<Rightarrow> int \<Rightarrow> Sample option"
  colorMaps_payload :: "ColorMap list option"

definition AttributionsService_getAsync :: "Environment \<Rightarrow> Backend \<Rightarrow> int \<Rightarrow> int option \<Rightarrow> Attribution option" where
  "AttributionsService_getAsync env backend projectId i =
     (case attributions_payload backend projectId i of
        None \<Rightarrow> None
      | Some attribution \<Rightarrow>
          (case new_Attribution attribution (Some (apiBaseUrl env)) of
             Inl err \<Rightarrow> None
           | Inr built \<Rightarrow> Some built))"

definition DatasetService_getAsync :: "Environment \<Rightarrow> Backend \<Rightarrow> int \<Rightarrow> int \<Rightarrow> Sample option" where
  "DatasetService_getAsync env backend projectId i =
     map_option (\<lambda>sample. new_Sample sample (Some (apiBaseUrl env)))
       (dataset_payload backend projectId i)"

definition ColorMapsService_getAsync :: "Environment \<Rightarrow> Backend \<Rightarrow> ColorMap list option" where
  "ColorMapsService_getAsync env backend =
     map_option (map (\<lambda>colorMap. new_ColorMap colorMap (Some (apiBaseUrl env))))
       (colorMaps_payload backend)"

text \<open>\<open>Promise.all\<close>: the results in the order of the promises, or rejected if one is.\<close>

fun Promise_all :: "'a option list \<Rightarrow> 'a list option" where
  "Promise_all [] = Some []"
| "Promise_all (p # ps) =
     (case p of
        None \<Rightarrow> None
      | Some v \<Rightarrow> (case Promise_all ps of None \<Rightarrow> None | Some vs \<Rightarrow> Some (v # vs)))"

text \<open>
  One run of \<open>onSelectedAsync\<close> from label 0 to its end, with nothing else running in between:
  each awaited batch is answered by the gateways.
\<close>

definition onSelectedAsync :: "Environment \<Rightarrow> Backend \<Rightarrow> eventInfo option \<Rightarrow> world \<Rightarrow> outcome \<times> world" where
  "onSelectedAsync env backend ev w =
     (case onSelectedAsync_0 ev w of
        (Return, w0) \<Rightarrow> (Fulfilled, w0)
      | (Throw err, w0) \<Rightarrow> (Rejected err, w0)
      | (Await requested, w0) \<Rightarrow>
          (case Promise_all (map (\<lambda>(projectId, i). AttributionsService_getAsync env backend projectId i) requested) of
             None \<Rightarrow> (Rejected GatewayRejected, w0)
           | Some attributions \<Rightarrow>
               (case onSelectedAsync_1 attributions w0 of
                  (Return, w1) \<Rightarrow> (Fulfilled, w1)
                | (Throw err, w1) \<Rightarrow> (Rejected err, w1)
                | (Await requested1, w1) \<Rightarrow>
                    (case Promise_all (map (\<lambda>(projectId, i). DatasetService_getAsync env backend projectId i) requested1) of
                       None \<Rightarrow> (Rejected GatewayRejected, w1)
                     | Some samples \<Rightarrow> onSelectedAsync_2 samples w1))))"

section \<open>Concrete inputs\<close>

definition demo_analysis :: Analysis where
  "demo_analysis =
     \<lparr>categoryName = ''cat-1'', humanReadableCategoryName = ''Category 1'',
      clusteringName = ''kmeans-5'', embeddingName = ''tsne'',
      embedding =
        [\<lparr>cluster = 5, attributionIndex = 10, val = [1, 2, 3]\<rparr>,
         \<lparr>cluster = 2, attributionIndex = 11, val = [4, 5, 6]\<rparr>,
         \<lparr>cluster = 5, attributionIndex = 12, val = [7, 8, 9]\<rparr>],
      eigenValues = [], baseEmbeddingName = None, baseEmbeddingAxesIndices = None\<rparr>"

definition demo_page :: IndexPage where
  "demo_page = new_IndexPage\<lparr>p_analysis := Some demo_analysis, p_verticalAxisDimensionIndex := 2\<rparr>"

definition demo_method :: AnalysisMethod where
  "demo_method =
     \<lparr>AnalysisMethod.name = ''lrp'',
      categories = [\<lparr>AnalysisCategory.name = ''cat-1'', AnalysisCategory.humanReadableName = ''Category 1''\<rparr>],
      clusterings = [''kmeans-5''],
      embeddings = [''tsne'', ''umap'']\<rparr>"

definition demo_project :: Project where
  "demo_project =
     \<lparr>ident = 1, Project.name = ''demo'', model = ''vgg16'', dataset = ''ilsvrc'',
      analysisMethods = [demo_method]\<rparr>"

definition demo_selected :: IndexPage where
  "demo_selected =
     demo_page\<lparr>project := Some demo_project,
               p_horizontalAxisDimensionIndex := 2,
               p_verticalAxisDimensionIndex := 0,
               p_selectedAnalysisMethod := Some demo_method,
               p_selectedCategory := js_first (categories demo_method),
               p_selectedClustering := Some ''kmeans-5'',
               p_selectedEmbedding := Some ''tsne''\<rparr>"

definition demo_colorMaps :: "ColorMap list" where
  "demo_colorMaps =
     [\<lparr>ColorMap.name = ''gray'', ColorMap.humanReadableName = ''Gray'', ColorMap.url = ''/api/color-maps/gray''\<rparr>,
      \<lparr>ColorMap.name = ''black-fire-red'', ColorMap.humanReadableName = ''Black Fire-Red'',
       ColorMap.url = ''/api/color-maps/black-fire-red''\<rparr>,
      \<lparr>ColorMap.name = ''black-fire-red'', ColorMap.humanReadableName = ''Second'',
       ColorMap.url = ''/api/color-maps/second''\<rparr>]"

definition demo_payload :: "int \<Rightarrow> AttributionPayload" where
  "demo_payload n =
     \<lparr>AttributionPayload.index = n, AttributionPayload.labels = Label ''tench'',
      AttributionPayload.prediction = JNull,
      AttributionPayload.width = 224, AttributionPayload.height = 224,
      AttributionPayload.url = ''/heatmap'',
      AttributionPayload.urls = [(''gray'', ''/heatmap?colorMap=gray''),
                                (''black-fire-red'', ''/heatmap?colorMap=black-fire-red'')]\<rparr>"

definition demo_fetched :: "int \<Rightarrow> Attribution" where
  "demo_fetched n =
     \<lparr>Attribution.index = n, Attribution.labels = Label ''tench'',
      Attribution.prediction = JNull,
      Attribution.width = 224, Attribution.height = 224,
      Attribution.url = ''http://localhost:8080/heatmap'',
      Attribution.urls = [(''gray'', ''http://localhost:8080/heatmap?colorMap=gray''),
                         (''black-fire-red'', ''http://localhost:8080/heatmap?colorMap=black-fire-red'')],
      sample = None\<rparr>"

definition demo_shadowing_payload :: AttributionPayload where
  "demo_shadowing_payload =
     (demo_payload 3)\<lparr>AttributionPayload.urls :=
        [(''gray'', ''/heatmap?colorMap=gray''), (''hasOwnProperty'', ''/heatmap?colorMap=hasOwnProperty'')]\<rparr>"

definition demo_image :: "int \<Rightarrow> Sample" where
  "demo_image n =
     \<lparr>Sample.index = (if n = 99 then 0 else n), Sample.labels = Labels [''tench''],
      Sample.width = 224, Sample.height = 224, Sample.url = ''/image''\<rparr>"

definition demo_backend :: Backend where
  "demo_backend =
     \<lparr>attributions_payload = (\<lambda>projectId i. map_option demo_payload i),
      dataset_payload = (\<lambda>projectId n. if n = 13 then None else Some (demo_image n)),
      colorMaps_payload = Some demo_colorMaps\<rparr>"

definition demo_shadowing_backend :: Backend where
  "demo_shadowing_backend =
     demo_backend\<lparr>attributions_payload := (\<lambda>projectId i. Some demo_shadowing_payload)\<rparr>"

definition demo_trace :: series where
  "demo_trace =
     \<lparr>series.name = ''Cluster 5'',
      series_x = [Some 0, Some 1, Some 2, Some 3, Some 4, Some 5, Some 6, Some 7, Some 8, Some 9, Some 10, Some 11, Some 12, Some 13, Some 14, Some 15, Some 16, Some 17, Some 18, Some 19, Some 20, Some 21, Some 22, Some 23, Some 24],
      series_y = [Some 0, Some 1, Some 2, Some 3, Some 4, Some 5, Some 6, Some 7, Some 8, Some 9, Some 10, Some 11, Some 12, Some 13, Some 14, Some 15, Some 16, Some 17, Some 18, Some 19, Some 20, Some 21, Some 22, Some 23, Some 24],
      trace_type = ''scatter'', mode = ''markers'', marker_size = 12, hoverinfo = ''none'',
      attributionIndices = [100, 107, 114, 121, 128, 135, 142, 149, 156, 163, 170, 177, 184, 191, 198, 205, 212, 219, 226, 233, 240, 247, 254, 261, 268]\<rparr>"

definition demo_selection :: eventInfo where
  "demo_selection =
     \<lparr>points =
        [\<lparr>data = demo_trace, pointIndex = 0\<rparr>,
         \<lparr>data = demo_trace, pointIndex = 1\<rparr>,
         \<lparr>data = demo_trace, pointIndex = 2\<rparr>,
         \<lparr>data = demo_trace, pointIndex = 3\<rparr>,
         \<lparr>data = demo_trace, pointIndex = 4\<rparr>,
         \<lparr>data = demo_trace, pointIndex = 5\<rparr>,
         \<lparr>data = demo_trace, pointIndex = 6\<rparr>,
         \<lparr>data = demo_trace, pointIndex = 7\<rparr>,
         \<lparr>data = demo_trace, pointIndex = 8\<rparr>,
         \<lparr>data = demo_trace, pointIndex = 9\<rparr>,
         \<lparr>data = demo_trace, pointIndex = 10\<rparr>,
         \<lparr>data = demo_trace, pointIndex = 11\<rparr>,
         \<lparr>data = demo_trace, pointIndex = 12\<rparr>,
         \<lparr>data = demo_trace, pointIndex = 13\<rparr>,
         \<lparr>data = demo_trace, pointIndex = 14\<rparr>,
         \<lparr>data = demo_trace, pointIndex = 15\<rparr>,
         \<lparr>data = demo_trace, pointIndex = 16\<rparr>,
         \<lparr>data = demo_trace, pointIndex = 17\<rparr>,
         \<lparr>data = demo_trace, pointIndex = 18\<rparr>,
         \<lparr>data = demo_trace, pointIndex = 19\<rparr>,
         \<lparr>data = demo_trace, pointIndex = 20\<rparr>,
         \<lparr>data = demo_trace, pointIndex = 21\<rparr>,
         \<lparr>data = demo_trace, pointIndex = 22\<rparr>,
         \<lparr>data = demo_trace, pointIndex = 23\<rparr>,
         \<lparr>data = demo_trace, pointIndex = 24\<rparr>]\<rparr>"

definition demo_pair_trace :: series where
  "demo_pair_trace =
     \<lparr>series.name = ''Cluster 2'', series_x = [Some 1, Some 2, Some 3], series_y = [Some 4, Some 5, Some 6],
      trace_type = ''scatter'', mode = ''markers'', marker_size = 12, hoverinfo = ''none'',
      attributionIndices = [7, 7, 99]\<rparr>"

definition demo_twice :: eventInfo where
  "demo_twice = \<lparr>points = [\<lparr>data = demo_pair_trace, pointIndex = 0\<rparr>, \<lparr>data = demo_pair_trace, pointIndex = 1\<rparr>]\<rparr>"

definition demo_unmatched :: eventInfo where
  "demo_unmatched = \<lparr>points = [\<lparr>data = demo_pair_trace, pointIndex = 0\<rparr>, \<lparr>data = demo_pair_trace, pointIndex = 2\<rparr>]\<rparr>"

definition demo_attribution :: Attribution where
  "demo_attribution =
     \<lparr>Attribution.index = 10, Attribution.labels = Label ''tench'', Attribution.prediction = JNull,
      Attribution.width = 224, Attribution.height = 224,
      Attribution.url = ''http://localhost:8080/heatmap'',
      Attribution.urls = [(''gray'', ''http://localhost:8080/heatmap?colorMap=gray'')],
      sample = None\<rparr>"

definition demo_shown :: IndexPage where
  "demo_shown = demo_selected\<lparr>selectedAttributions := Some [demo_attribution]\<rparr>"

section \<open>The plot data\<close>

lemma collect_clusters_first_seen:
  "collect_clusters (rev (remdups (rev ys))) cs = rev (remdups (rev (ys @ cs)))"
proof (induction cs arbitrary: ys)
  case Nil
  then show ?case by simp
next
  case (Cons c cs)
  have "collect_clusters (rev (remdups (rev ys))) (c # cs)
      = collect_clusters (rev (remdups (rev (ys @ [c])))) cs"
    by simp
  also have "\<dots> = rev (remdups (rev ((ys @ [c]) @ cs)))"
    by (rule Cons.IH)
  finally show ?case by simp
qed

lemma collect_clusters_from_empty: "collect_clusters [] cs = rev (remdups (rev cs))"
  using collect_clusters_first_seen [of "[]" cs] by simp

lemma push_traces_map: "push_traces this a cs g = g @ map (loop_1 this a) cs"
  by (induction cs arbitrary: g) simp_all

lemma mset_by_key:
  "distinct ks \<Longrightarrow>
   mset (concat (map (\<lambda>k. filter (\<lambda>e. f e = k) es) ks)) = mset (filter (\<lambda>e. f e \<in> set ks) es)"
proof (induction ks)
  case Nil
  then show ?case by simp
next
  case (Cons k ks)
  have "mset (filter (\<lambda>e. f e = k) es) + mset (filter (\<lambda>e. f e \<in> set ks) es)
      = mset (filter (\<lambda>e. f e \<in> set (k # ks)) es)"
    using Cons.prems by (induction es) auto
  with Cons show ?case by simp
qed

lemma mset_by_all_keys:
  assumes "distinct ks" and "f ` set es \<subseteq> set ks"
  shows "mset (concat (map (\<lambda>k. filter (\<lambda>e. f e = k) es) ks)) = mset es"
proof -
  have "filter (\<lambda>e. f e \<in> set ks) es = es"
    using assms(2) by (auto simp: filter_id_conv)
  with mset_by_key [OF assms(1), of f es] show ?thesis by simp
qed

lemma concat_attributionIndices:
  "concat (map attributionIndices (map (loop_1 this a) ks))
     = map attributionIndex (concat (map (\<lambda>k. filter (\<lambda>e. cluster e = k) (embedding a)) ks))"
  by (induction ks) (simp_all add: loop_1_def Let_def)

text \<open>
  C1. With an analysis loaded, \<open>refreshPlot\<close> changes nothing but \<open>graphData\<close>. The new graph has
  one trace per distinct cluster identifier, the identifiers in the order of their first
  appearance in the embedding. Trace \<open>i\<close> is named after cluster \<open>i\<close> and holds exactly the points
  of that cluster, in their order in the embedding: its attribution indices, its X values (the
  point's value at the horizontal axis index) and its Y values (the value at the vertical axis
  index) are taken point by point from them, so the three arrays are parallel. The traces
  together hold every point of the embedding exactly once, and so every attribution index as
  often as the embedding has it.
\<close>

theorem refreshPlot_partitions:
  assumes "p_analysis this = Some analysis"
  shows "\<exists>clusters graph.
     refreshPlot this = this\<lparr>graphData := Some graph\<rparr> \<and>
     clusters = rev (remdups (rev (map cluster (embedding analysis)))) \<and>
     distinct clusters \<and> set clusters = cluster ` set (embedding analysis) \<and>
     length graph = length clusters \<and>
     (\<forall>i<length clusters.
        series.name (graph ! i) = ''Cluster '' @ number_toString (clusters ! i) \<and>
        attributionIndices (graph ! i)
          = map attributionIndex (filter (\<lambda>e. cluster e = clusters ! i) (embedding analysis)) \<and>
        series_x (graph ! i)
          = map (\<lambda>e. js_nth (val e) (p_horizontalAxisDimensionIndex this))
              (filter (\<lambda>e. cluster e = clusters ! i) (embedding analysis)) \<and>
        series_y (graph ! i)
          = map (\<lambda>e. js_nth (val e) (p_verticalAxisDimensionIndex this))
              (filter (\<lambda>e. cluster e = clusters ! i) (embedding analysis))) \<and>
     mset (concat (map (\<lambda>k. filter (\<lambda>e. cluster e = k) (embedding analysis)) clusters))
       = mset (embedding analysis) \<and>
     mset (concat (map attributionIndices graph)) = mset (map attributionIndex (embedding analysis))"
proof -
  define clusters where "clusters = rev (remdups (rev (map cluster (embedding analysis))))"
  define graph where "graph = map (loop_1 this analysis) clusters"
  have run: "refreshPlot this = this\<lparr>graphData := Some graph\<rparr>"
    using assms
    by (simp add: refreshPlot_def collect_clusters_from_empty push_traces_map graph_def clusters_def)
  have dist: "distinct clusters"
    by (simp add: clusters_def)
  have cover: "set clusters = cluster ` set (embedding analysis)"
    by (simp add: clusters_def)
  have len: "length graph = length clusters"
    by (simp add: graph_def)
  have each: "\<forall>i<length clusters.
        series.name (graph ! i) = ''Cluster '' @ number_toString (clusters ! i) \<and>
        attributionIndices (graph ! i)
          = map attributionIndex (filter (\<lambda>e. cluster e = clusters ! i) (embedding analysis)) \<and>
        series_x (graph ! i)
          = map (\<lambda>e. js_nth (val e) (p_horizontalAxisDimensionIndex this))
              (filter (\<lambda>e. cluster e = clusters ! i) (embedding analysis)) \<and>
        series_y (graph ! i)
          = map (\<lambda>e. js_nth (val e) (p_verticalAxisDimensionIndex this))
              (filter (\<lambda>e. cluster e = clusters ! i) (embedding analysis))"
    by (simp add: graph_def loop_1_def Let_def)
  have part: "mset (concat (map (\<lambda>k. filter (\<lambda>e. cluster e = k) (embedding analysis)) clusters))
       = mset (embedding analysis)"
    using dist cover by (intro mset_by_all_keys) simp_all
  have "mset (concat (map attributionIndices graph))
      = mset (map attributionIndex
          (concat (map (\<lambda>k. filter (\<lambda>e. cluster e = k) (embedding analysis)) clusters)))"
    by (simp only: graph_def concat_attributionIndices)
  also have "\<dots> = mset (map attributionIndex (embedding analysis))"
    using part by (metis mset_map)
  finally have idx: "mset (concat (map attributionIndices graph))
      = mset (map attributionIndex (embedding analysis))" .
  from run dist cover len each part idx show ?thesis
    unfolding clusters_def [symmetric] by blast
qed

theorem refreshPlot_partitions_witness:
  "p_analysis demo_page = Some demo_analysis \<and>
   graphData (refreshPlot demo_page) =
     Some [\<lparr>series.name = ''Cluster 5'', series_x = [Some 1, Some 7], series_y = [Some 3, Some 9],
            trace_type = ''scatter'', mode = ''markers'', marker_size = 12, hoverinfo = ''none'',
            attributionIndices = [10, 12]\<rparr>,
           \<lparr>series.name = ''Cluster 2'', series_x = [Some 4], series_y = [Some 6],
            trace_type = ''scatter'', mode = ''markers'', marker_size = 12, hoverinfo = ''none'',
            attributionIndices = [11]\<rparr>]"
proof -
  have h: "p_analysis demo_page = Some demo_analysis"
    by (simp add: demo_page_def new_IndexPage_def)
  from refreshPlot_partitions [OF h] obtain graph where
    "refreshPlot demo_page = demo_page\<lparr>graphData := Some graph\<rparr>"
    by blast
  then have "graphData (refreshPlot demo_page) = Some graph"
    by simp
  then show ?thesis
    using h by (simp add: refreshPlot_def demo_page_def demo_analysis_def new_IndexPage_def
        loop_1_def Let_def js_nth_def number_toString_def)
qed

section \<open>The axis setters\<close>

text \<open>
  C9. Assigning the horizontal (or the vertical) axis index makes no gateway call at all: the
  recorded calls are the same list afterwards, so no analysis is fetched. On the page, the
  assigned index and \<open>graphData\<close> are the only fields that can differ. With an analysis loaded,
  \<open>graphData\<close> is computed anew from that same analysis with the new index; with none loaded it
  stays as it was.
\<close>

theorem axis_setters_frame:
  "snd (horizontalAxisDimensionIndex_set v (this, calls)) = calls \<and>
   fst (horizontalAxisDimensionIndex_set v (this, calls))
     = this\<lparr>p_horizontalAxisDimensionIndex := v,
            graphData :=
              (case p_analysis this of
                 None \<Rightarrow> graphData this
               | Some analysis \<Rightarrow>
                   Some (map (loop_1 (this\<lparr>p_horizontalAxisDimensionIndex := v\<rparr>) analysis)
                          (rev (remdups (rev (map cluster (embedding analysis)))))))\<rparr> \<and>
   snd (verticalAxisDimensionIndex_set v (this, calls)) = calls \<and>
   fst (verticalAxisDimensionIndex_set v (this, calls))
     = this\<lparr>p_verticalAxisDimensionIndex := v,
            graphData :=
              (case p_analysis this of
                 None \<Rightarrow> graphData this
               | Some analysis \<Rightarrow>
                   Some (map (loop_1 (this\<lparr>p_verticalAxisDimensionIndex := v\<rparr>) analysis)
                          (rev (remdups (rev (map cluster (embedding analysis)))))))\<rparr>"
  by (simp add: horizontalAxisDimensionIndex_set_def verticalAxisDimensionIndex_set_def
      refreshPlot_def collect_clusters_from_empty push_traces_map Let_def split: option.splits)

theorem axis_setters_frame_witness:
  "snd (horizontalAxisDimensionIndex_set 1 (demo_selected, [])) = [] \<and>
   p_analysis (fst (horizontalAxisDimensionIndex_set 1 (demo_selected, []))) = Some demo_analysis \<and>
   map series_x (the (graphData (fst (horizontalAxisDimensionIndex_set 1 (demo_selected, [])))))
     = [[Some 2, Some 8], [Some 5]] \<and>
   snd (verticalAxisDimensionIndex_set 5 (demo_selected, [])) = [] \<and>
   map series_y (the (graphData (fst (verticalAxisDimensionIndex_set 5 (demo_selected, [])))))
     = [[None, None], [None]]"
  using axis_setters_frame [of 1 demo_selected "[]"] axis_setters_frame [of 5 demo_selected "[]"]
  by (simp add: demo_selected_def demo_page_def demo_analysis_def new_IndexPage_def
      loop_1_def Let_def js_nth_def)

section \<open>The setter of the selected embedding\<close>

lemma refreshAnalysisAsync_0_axes:
  "p_horizontalAxisDimensionIndex (fst (snd (refreshAnalysisAsync_0 (this, calls)))) = p_horizontalAxisDimensionIndex this"
  "p_verticalAxisDimensionIndex (fst (snd (refreshAnalysisAsync_0 (this, calls)))) = p_verticalAxisDimensionIndex this"
  by (simp_all add: refreshAnalysisAsync_0_def Let_def split: option.splits)

lemma refreshAnalysisAsync_0_selection:
  "p_selectedAnalysisMethod (fst (snd (refreshAnalysisAsync_0 (this, calls)))) = p_selectedAnalysisMethod this"
  "p_selectedCategory (fst (snd (refreshAnalysisAsync_0 (this, calls)))) = p_selectedCategory this"
  "p_selectedClustering (fst (snd (refreshAnalysisAsync_0 (this, calls)))) = p_selectedClustering this"
  "p_selectedEmbedding (fst (snd (refreshAnalysisAsync_0 (this, calls)))) = p_selectedEmbedding this"
  "project (fst (snd (refreshAnalysisAsync_0 (this, calls)))) = project this"
  by (simp_all add: refreshAnalysisAsync_0_def Let_def split: option.splits)

lemma refreshAnalysisAsync_0_cases:
  "refreshAnalysisAsync_0 (this, calls) = (Return, (this, calls)) \<or>
   refreshAnalysisAsync_0 (this, calls)
     = (Throw TypeError, (this\<lparr>isLoading := Some True, selectedAttributions := None\<rparr>, calls)) \<or>
   (\<exists>c. refreshAnalysisAsync_0 (this, calls)
     = (Await c, (this\<lparr>isLoading := Some True, selectedAttributions := None\<rparr>,
                  calls @ [(c, this\<lparr>isLoading := Some True, selectedAttributions := None\<rparr>)])))"
  by (simp add: refreshAnalysisAsync_0_def Let_def split: option.splits)

lemma refreshAnalysisAsync_0_calls:
  "\<exists>new. snd (snd (refreshAnalysisAsync_0 (this, calls))) = calls @ new \<and> length new \<le> 1 \<and>
     (\<forall>c page. (c, page) \<in> set new \<longrightarrow>
        page = this\<lparr>isLoading := Some True, selectedAttributions := None\<rparr>)"
  using refreshAnalysisAsync_0_cases [of this calls] by (elim disjE exE) auto

lemma refreshAnalysisAsync_1_axes:
  "p_horizontalAxisDimensionIndex (fst (refreshAnalysisAsync_1 sent (this, calls))) = p_horizontalAxisDimensionIndex this"
  "p_verticalAxisDimensionIndex (fst (refreshAnalysisAsync_1 sent (this, calls))) = p_verticalAxisDimensionIndex this"
  by (simp_all add: refreshAnalysisAsync_1_def analysis_set_def refreshPlot_def Let_def)

text \<open>
  C8. Whatever value is assigned to \<open>selectedEmbedding\<close>, the page has the horizontal axis index
  0 and the vertical axis index 1 when the setter is done. The setter makes at most one gateway
  call, and the page recorded with that call, the page at the moment the analysis is requested,
  already has the axis indices 0 and 1 and the assigned embedding. When the requested analysis
  arrives next, the indices are still 0 and 1.
\<close>

theorem selectedEmbedding_resets_axes:
  "p_horizontalAxisDimensionIndex (fst (selectedEmbedding_set v (this, calls))) = 0 \<and>
   p_verticalAxisDimensionIndex (fst (selectedEmbedding_set v (this, calls))) = 1 \<and>
   p_selectedEmbedding (fst (selectedEmbedding_set v (this, calls))) = v \<and>
   (\<exists>new. snd (selectedEmbedding_set v (this, calls)) = calls @ new \<and> length new \<le> 1 \<and>
      (\<forall>c page. (c, page) \<in> set new \<longrightarrow>
         p_horizontalAxisDimensionIndex page = 0 \<and> p_verticalAxisDimensionIndex page = 1 \<and>
         p_selectedEmbedding page = v)) \<and>
   (\<forall>sent.
      p_horizontalAxisDimensionIndex (fst (refreshAnalysisAsync_1 sent (selectedEmbedding_set v (this, calls)))) = 0 \<and>
      p_verticalAxisDimensionIndex (fst (refreshAnalysisAsync_1 sent (selectedEmbedding_set v (this, calls)))) = 1)"
proof -
  define this3 where "this3 = this\<lparr>p_selectedEmbedding := v, p_horizontalAxisDimensionIndex := 0,
    p_verticalAxisDimensionIndex := 1\<rparr>"
  have run: "selectedEmbedding_set v (this, calls)
      = (if truthy_string v then snd (refreshAnalysisAsync_0 (this3, calls)) else (this3, calls))"
    by (simp add: selectedEmbedding_set_def this3_def Let_def)
  have h: "p_horizontalAxisDimensionIndex (fst (selectedEmbedding_set v (this, calls))) = 0"
    unfolding run by (simp add: refreshAnalysisAsync_0_axes) (simp add: this3_def)
  have vert: "p_verticalAxisDimensionIndex (fst (selectedEmbedding_set v (this, calls))) = 1"
    unfolding run by (simp add: refreshAnalysisAsync_0_axes) (simp add: this3_def)
  have emb: "p_selectedEmbedding (fst (selectedEmbedding_set v (this, calls))) = v"
    unfolding run by (simp add: refreshAnalysisAsync_0_selection) (simp add: this3_def)
  have new: "\<exists>new. snd (selectedEmbedding_set v (this, calls)) = calls @ new \<and> length new \<le> 1 \<and>
      (\<forall>c page. (c, page) \<in> set new \<longrightarrow>
         p_horizontalAxisDimensionIndex page = 0 \<and> p_verticalAxisDimensionIndex page = 1 \<and>
         p_selectedEmbedding page = v)"
  proof (cases "truthy_string v")
    case True
    from refreshAnalysisAsync_0_calls [of this3 calls] obtain new where
      n: "snd (snd (refreshAnalysisAsync_0 (this3, calls))) = calls @ new" "length new \<le> 1"
         "\<forall>c page. (c, page) \<in> set new \<longrightarrow>
            page = this3\<lparr>isLoading := Some True, selectedAttributions := None\<rparr>"
      by blast
    have "\<forall>c page. (c, page) \<in> set new \<longrightarrow>
         p_horizontalAxisDimensionIndex page = 0 \<and> p_verticalAxisDimensionIndex page = 1 \<and>
         p_selectedEmbedding page = v"
    proof (intro allI impI)
      fix c page
      assume "(c, page) \<in> set new"
      with n(3) have "page = this3\<lparr>isLoading := Some True, selectedAttributions := None\<rparr>"
        by blast
      then show "p_horizontalAxisDimensionIndex page = 0 \<and> p_verticalAxisDimensionIndex page = 1 \<and>
         p_selectedEmbedding page = v"
        by (simp add: this3_def)
    qed
    with n(1,2) True show ?thesis
      unfolding run by auto
  next
    case False
    then show ?thesis
      unfolding run by simp
  qed
  have later: "\<forall>sent.
      p_horizontalAxisDimensionIndex (fst (refreshAnalysisAsync_1 sent (selectedEmbedding_set v (this, calls)))) = 0 \<and>
      p_verticalAxisDimensionIndex (fst (refreshAnalysisAsync_1 sent (selectedEmbedding_set v (this, calls)))) = 1"
    using h vert
    by (cases "selectedEmbedding_set v (this, calls)") (simp add: refreshAnalysisAsync_1_axes)
  from h vert emb new later show ?thesis
    by blast
qed

theorem selectedEmbedding_resets_axes_witness:
  "p_horizontalAxisDimensionIndex demo_selected = 2 \<and> p_verticalAxisDimensionIndex demo_selected = 0 \<and>
   map fst (snd (selectedEmbedding_set (Some ''umap'') (demo_selected, [])))
     = [GetAnalysis 1 ''lrp'' ''cat-1'' ''kmeans-5'' ''umap''] \<and>
   map (p_horizontalAxisDimensionIndex \<circ> snd) (snd (selectedEmbedding_set (Some ''umap'') (demo_selected, []))) = [0] \<and>
   map (p_verticalAxisDimensionIndex \<circ> snd) (snd (selectedEmbedding_set (Some ''umap'') (demo_selected, []))) = [1] \<and>
   p_horizontalAxisDimensionIndex (fst (selectedEmbedding_set (Some ''umap'') (demo_selected, []))) = 0 \<and>
   p_verticalAxisDimensionIndex (fst (selectedEmbedding_set (Some ''umap'') (demo_selected, []))) = 1"
  using selectedEmbedding_resets_axes [of "Some ''umap''" demo_selected "[]"]
  by (simp add: selectedEmbedding_set_def refreshAnalysisAsync_0_def demo_selected_def demo_page_def
      new_IndexPage_def demo_method_def demo_project_def js_first_def truthy_string_def Let_def)

section \<open>The setter of the selected analysis method\<close>

lemma refreshAnalysisAsync_0_keeps:
  "p_selectedAnalysisMethod (fst (snd (refreshAnalysisAsync_0 w))) = p_selectedAnalysisMethod (fst w)"
  "p_selectedCategory (fst (snd (refreshAnalysisAsync_0 w))) = p_selectedCategory (fst w)"
  "p_selectedClustering (fst (snd (refreshAnalysisAsync_0 w))) = p_selectedClustering (fst w)"
  "p_selectedEmbedding (fst (snd (refreshAnalysisAsync_0 w))) = p_selectedEmbedding (fst w)"
  "project (fst (snd (refreshAnalysisAsync_0 w))) = project (fst w)"
proof -
  obtain this calls where w: "w = (this, calls)"
    by (cases w)
  show
    "p_selectedAnalysisMethod (fst (snd (refreshAnalysisAsync_0 w))) = p_selectedAnalysisMethod (fst w)"
    "p_selectedCategory (fst (snd (refreshAnalysisAsync_0 w))) = p_selectedCategory (fst w)"
    "p_selectedClustering (fst (snd (refreshAnalysisAsync_0 w))) = p_selectedClustering (fst w)"
    "p_selectedEmbedding (fst (snd (refreshAnalysisAsync_0 w))) = p_selectedEmbedding (fst w)"
    "project (fst (snd (refreshAnalysisAsync_0 w))) = project (fst w)"
    unfolding w by (simp_all add: refreshAnalysisAsync_0_def Let_def split: option.splits)
qed

lemma selectedCategory_set_page:
  "p_selectedCategory (fst (selectedCategory_set v w)) = v"
  "p_selectedAnalysisMethod (fst (selectedCategory_set v w)) = p_selectedAnalysisMethod (fst w)"
  "p_selectedClustering (fst (selectedCategory_set v w)) = p_selectedClustering (fst w)"
  "p_selectedEmbedding (fst (selectedCategory_set v w)) = p_selectedEmbedding (fst w)"
  "project (fst (selectedCategory_set v w)) = project (fst w)"
proof -
  obtain this calls where w: "w = (this, calls)"
    by (cases w)
  show
    "p_selectedCategory (fst (selectedCategory_set v w)) = v"
    "p_selectedAnalysisMethod (fst (selectedCategory_set v w)) = p_selectedAnalysisMethod (fst w)"
    "p_selectedClustering (fst (selectedCategory_set v w)) = p_selectedClustering (fst w)"
    "p_selectedEmbedding (fst (selectedCategory_set v w)) = p_selectedEmbedding (fst w)"
    "project (fst (selectedCategory_set v w)) = project (fst w)"
    unfolding w by (simp_all add: selectedCategory_set_def Let_def refreshAnalysisAsync_0_keeps)
qed

lemma selectedClustering_set_page:
  "p_selectedClustering (fst (selectedClustering_set v w)) = v"
  "p_selectedAnalysisMethod (fst (selectedClustering_set v w)) = p_selectedAnalysisMethod (fst w)"
  "p_selectedCategory (fst (selectedClustering_set v w)) = p_selectedCategory (fst w)"
  "p_selectedEmbedding (fst (selectedClustering_set v w)) = p_selectedEmbedding (fst w)"
  "project (fst (selectedClustering_set v w)) = project (fst w)"
proof -
  obtain this calls where w: "w = (this, calls)"
    by (cases w)
  show
    "p_selectedClustering (fst (selectedClustering_set v w)) = v"
    "p_selectedAnalysisMethod (fst (selectedClustering_set v w)) = p_selectedAnalysisMethod (fst w)"
    "p_selectedCategory (fst (selectedClustering_set v w)) = p_selectedCategory (fst w)"
    "p_selectedEmbedding (fst (selectedClustering_set v w)) = p_selectedEmbedding (fst w)"
    "project (fst (selectedClustering_set v w)) = project (fst w)"
    unfolding w by (simp_all add: selectedClustering_set_def Let_def refreshAnalysisAsync_0_keeps)
qed

lemma selectedEmbedding_set_page:
  "p_selectedEmbedding (fst (selectedEmbedding_set v w)) = v"
  "p_selectedAnalysisMethod (fst (selectedEmbedding_set v w)) = p_selectedAnalysisMethod (fst w)"
  "p_selectedCategory (fst (selectedEmbedding_set v w)) = p_selectedCategory (fst w)"
  "p_selectedClustering (fst (selectedEmbedding_set v w)) = p_selectedClustering (fst w)"
  "project (fst (selectedEmbedding_set v w)) = project (fst w)"
proof -
  obtain this calls where w: "w = (this, calls)"
    by (cases w)
  show
    "p_selectedEmbedding (fst (selectedEmbedding_set v w)) = v"
    "p_selectedAnalysisMethod (fst (selectedEmbedding_set v w)) = p_selectedAnalysisMethod (fst w)"
    "p_selectedCategory (fst (selectedEmbedding_set v w)) = p_selectedCategory (fst w)"
    "p_selectedClustering (fst (selectedEmbedding_set v w)) = p_selectedClustering (fst w)"
    "project (fst (selectedEmbedding_set v w)) = project (fst w)"
    unfolding w by (simp_all add: selectedEmbedding_set_def Let_def refreshAnalysisAsync_0_keeps)
qed

lemma tsne_listed: "(filter (\<lambda>e. e = ''tsne'') es = []) = (''tsne'' \<notin> set es)"
  by (induction es) auto

lemma selectedAnalysisMethod_set_page:
  "p_selectedAnalysisMethod (fst (selectedAnalysisMethod_set (Some m) w)) = Some m"
  "p_selectedCategory (fst (selectedAnalysisMethod_set (Some m) w)) = js_first (categories m)"
  "p_selectedClustering (fst (selectedAnalysisMethod_set (Some m) w)) = js_first (clusterings m)"
  "p_selectedEmbedding (fst (selectedAnalysisMethod_set (Some m) w))
     = (if ''tsne'' \<in> set (embeddings m) then Some ''tsne'' else js_first (embeddings m))"
  "project (fst (selectedAnalysisMethod_set (Some m) w)) = project (fst w)"
proof -
  obtain this calls where w: "w = (this, calls)"
    by (cases w)
  show
    "p_selectedAnalysisMethod (fst (selectedAnalysisMethod_set (Some m) w)) = Some m"
    "p_selectedCategory (fst (selectedAnalysisMethod_set (Some m) w)) = js_first (categories m)"
    "p_selectedClustering (fst (selectedAnalysisMethod_set (Some m) w)) = js_first (clusterings m)"
    "p_selectedEmbedding (fst (selectedAnalysisMethod_set (Some m) w))
     = (if ''tsne'' \<in> set (embeddings m) then Some ''tsne'' else js_first (embeddings m))"
    "project (fst (selectedAnalysisMethod_set (Some m) w)) = project (fst w)"
    unfolding w by (simp_all add: selectedAnalysisMethod_set_def Let_def tsne_listed refreshAnalysisAsync_0_keeps
      selectedCategory_set_page selectedClustering_set_page selectedEmbedding_set_page)
qed

lemma refreshAnalysisAsync_0_issues:
  assumes "p_selectedAnalysisMethod (fst w) = Some m" "p_selectedCategory (fst w) = Some c"
    "p_selectedClustering (fst w) = Some k" "k \<noteq> []"
    "p_selectedEmbedding (fst w) = Some e" "e \<noteq> []" "project (fst w) = Some p"
  shows "refreshAnalysisAsync_0 w
     = (Await (GetAnalysis (ident p) (AnalysisMethod.name m) (AnalysisCategory.name c) k e),
        ((fst w)\<lparr>isLoading := Some True, selectedAttributions := None\<rparr>,
         snd w @ [(GetAnalysis (ident p) (AnalysisMethod.name m) (AnalysisCategory.name c) k e,
                   (fst w)\<lparr>isLoading := Some True, selectedAttributions := None\<rparr>)]))"
  using assms by (cases w) (simp add: refreshAnalysisAsync_0_def Let_def)

text \<open>
  C3. Assigning an analysis method to \<open>selectedAnalysisMethod\<close> leaves the page with that method
  selected, the method's first category and first clustering selected, and as selected
  embedding \<open>tsne\<close> if the method lists it and the method's first embedding otherwise (a first
  element of an empty list is \<open>undefined\<close>). Assigning nothing stores that and does nothing
  else: no other field changes and no gateway is called. In particular a method with the
  embeddings \<open>tsne\<close>, \<open>umap\<close> gets \<open>tsne\<close>. When a project arrives whose first method has these
  embeddings, a first category and a first clustering that is not the empty string, the load
  ends awaiting an analysis requested for that method, category and clustering with the
  embedding \<open>tsne\<close>, which is also the last call recorded, and \<open>tsne\<close> is the selected embedding.
\<close>

theorem selectedAnalysisMethod_cascade:
  "p_selectedAnalysisMethod (fst (selectedAnalysisMethod_set (Some m) w)) = Some m \<and>
   p_selectedCategory (fst (selectedAnalysisMethod_set (Some m) w)) = js_first (categories m) \<and>
   p_selectedClustering (fst (selectedAnalysisMethod_set (Some m) w)) = js_first (clusterings m) \<and>
   p_selectedEmbedding (fst (selectedAnalysisMethod_set (Some m) w))
     = (if ''tsne'' \<in> set (embeddings m) then Some ''tsne'' else js_first (embeddings m)) \<and>
   selectedAnalysisMethod_set None (this, calls) = (this\<lparr>p_selectedAnalysisMethod := None\<rparr>, calls) \<and>
   (embeddings m = [''tsne'', ''umap''] \<longrightarrow>
      p_selectedEmbedding (fst (selectedAnalysisMethod_set (Some m) w)) = Some ''tsne'') \<and>
   (analysisMethods proj = m # ms \<and> categories m = c # cs \<and> clusterings m = k # ks \<and> k \<noteq> [] \<and>
    embeddings m = [''tsne'', ''umap''] \<longrightarrow>
      (\<exists>w'. refreshProjectAsync_1 proj w
               = (Await (GetAnalysis (ident proj) (AnalysisMethod.name m) (AnalysisCategory.name c) k ''tsne''), w') \<and>
            p_selectedEmbedding (fst w') = Some ''tsne'' \<and>
            snd w' \<noteq> [] \<and>
            fst (last (snd w'))
              = GetAnalysis (ident proj) (AnalysisMethod.name m) (AnalysisCategory.name c) k ''tsne''))"
proof -
  have none: "selectedAnalysisMethod_set None (this, calls) = (this\<lparr>p_selectedAnalysisMethod := None\<rparr>, calls)"
    by (simp add: selectedAnalysisMethod_set_def)
  have load: "\<exists>w'. refreshProjectAsync_1 proj w
               = (Await (GetAnalysis (ident proj) (AnalysisMethod.name m) (AnalysisCategory.name c) k ''tsne''), w') \<and>
            p_selectedEmbedding (fst w') = Some ''tsne'' \<and>
            snd w' \<noteq> [] \<and>
            fst (last (snd w'))
              = GetAnalysis (ident proj) (AnalysisMethod.name m) (AnalysisCategory.name c) k ''tsne''"
    if a: "analysisMethods proj = m # ms \<and> categories m = c # cs \<and> clusterings m = k # ks \<and> k \<noteq> [] \<and>
      embeddings m = [''tsne'', ''umap'']"
  proof -
    obtain this calls where w: "w = (this, calls)"
      by (cases w)
    define w1 where "w1 = selectedAnalysisMethod_set (Some m)
      (this\<lparr>project := Some proj, selectedAttributions := None\<rparr>, calls)"
    define w4 where "w4 = selectedEmbedding_set (Some ''tsne'')
      (selectedClustering_set (Some k) (selectedCategory_set (Some c) w1))"
    have m1: "p_selectedAnalysisMethod (fst w1) = Some m"
      by (simp add: w1_def selectedAnalysisMethod_set_page)
    have p1: "project (fst w1) = Some proj"
      by (simp add: w1_def selectedAnalysisMethod_set_page)
    have run: "refreshProjectAsync_1 proj w = refreshAnalysisAsync_0 w4"
      using a m1 by (simp add: refreshProjectAsync_1_def w Let_def js_first_def w1_def [symmetric] w4_def)
    have f: "p_selectedAnalysisMethod (fst w4) = Some m" "p_selectedCategory (fst w4) = Some c"
      "p_selectedClustering (fst w4) = Some k" "p_selectedEmbedding (fst w4) = Some ''tsne''"
      "project (fst w4) = Some proj"
      using m1 p1
      by (simp_all add: w4_def selectedCategory_set_page selectedClustering_set_page selectedEmbedding_set_page)
    from a have k: "k \<noteq> []" by simp
    have t: "''tsne'' \<noteq> []" by simp
    show ?thesis
      unfolding run refreshAnalysisAsync_0_issues [OF f(1) f(2) f(3) k f(4) t f(5)]
      by (simp add: f)
  qed
  from none load show ?thesis
    by (simp add: selectedAnalysisMethod_set_page)
qed

theorem selectedAnalysisMethod_cascade_witness:
  "p_selectedEmbedding (fst (selectedAnalysisMethod_set (Some demo_method) (new_IndexPage, []))) = Some ''tsne'' \<and>
   p_selectedCategory (fst (selectedAnalysisMethod_set (Some demo_method) (new_IndexPage, [])))
     = Some \<lparr>AnalysisCategory.name = ''cat-1'', AnalysisCategory.humanReadableName = ''Category 1''\<rparr> \<and>
   p_selectedClustering (fst (selectedAnalysisMethod_set (Some demo_method) (new_IndexPage, []))) = Some ''kmeans-5'' \<and>
   fst (refreshProjectAsync_1 demo_project (new_IndexPage, []))
     = Await (GetAnalysis 1 ''lrp'' ''cat-1'' ''kmeans-5'' ''tsne'') \<and>
   p_selectedEmbedding (fst (snd (refreshProjectAsync_1 demo_project (new_IndexPage, [])))) = Some ''tsne'' \<and>
   map fst (snd (snd (refreshProjectAsync_1 demo_project (new_IndexPage, []))))
     = replicate 6 (GetAnalysis 1 ''lrp'' ''cat-1'' ''kmeans-5'' ''tsne'')"
  using selectedAnalysisMethod_cascade [of demo_method "(new_IndexPage, [])" new_IndexPage "[]"
      demo_project "[]" "\<lparr>AnalysisCategory.name = ''cat-1'', AnalysisCategory.humanReadableName = ''Category 1''\<rparr>"
      "[]" "''kmeans-5''" "[]"]
  by (simp add: demo_method_def demo_project_def new_IndexPage_def js_first_def
      refreshProjectAsync_1_def selectedAnalysisMethod_set_def selectedCategory_set_def
      selectedClustering_set_def selectedEmbedding_set_def refreshAnalysisAsync_0_def
      truthy_string_def Let_def numeral_eq_Suc)

section \<open>The default color map\<close>

lemma js_first_filter: "js_first (filter P xs) = List.find P xs"
  by (induction xs) (simp_all add: js_first_def)

lemma filter_empty_find: "length (filter P xs) > 0 \<longleftrightarrow> List.find P xs \<noteq> None"
  by (induction xs) simp_all

text \<open>
  C10. When the color maps arrive during \<open>ngOnInit\<close>, the page keeps the list, and the selected
  color map becomes the first color map of the list named \<open>black-fire-red\<close> if the list has one,
  and the first color map of the list otherwise. With an empty list nothing is selected
  (the field is \<open>undefined\<close>). No gateway is called and no other field changes.
\<close>

theorem ngOnInit_default_colorMap:
  "ngOnInit_1 sent (this, calls)
     = (this\<lparr>colorMaps := Some sent,
             selectedColorMap :=
               (case List.find (\<lambda>colorMap. ColorMap.name colorMap = ''black-fire-red'') sent of
                  Some colorMap \<Rightarrow> Some colorMap
                | None \<Rightarrow> (case sent of [] \<Rightarrow> None | colorMap # _ \<Rightarrow> Some colorMap))\<rparr>,
        calls)"
proof (cases "List.find (\<lambda>colorMap. ColorMap.name colorMap = ''black-fire-red'') sent")
  case None
  then have "\<not> length (filter (\<lambda>colorMap. ColorMap.name colorMap = ''black-fire-red'') sent) > 0"
    by (simp only: filter_empty_find) simp
  with None show ?thesis
    by (simp add: ngOnInit_1_def Let_def js_first_def)
next
  case (Some c)
  then have "length (filter (\<lambda>colorMap. ColorMap.name colorMap = ''black-fire-red'') sent) > 0"
    by (simp only: filter_empty_find) simp
  with Some show ?thesis
    by (simp add: ngOnInit_1_def Let_def js_first_filter)
qed

theorem ngOnInit_default_colorMap_witness:
  "selectedColorMap (fst (ngOnInit_1 demo_colorMaps (new_IndexPage, []))) = Some (demo_colorMaps ! 1) \<and>
   selectedColorMap (fst (ngOnInit_1 (take 1 demo_colorMaps) (new_IndexPage, []))) = Some (demo_colorMaps ! 0) \<and>
   selectedColorMap (fst (ngOnInit_1 [] (new_IndexPage, []))) = None"
  using ngOnInit_default_colorMap [of demo_colorMaps new_IndexPage "[]"]
    ngOnInit_default_colorMap [of "take 1 demo_colorMaps" new_IndexPage "[]"]
    ngOnInit_default_colorMap [of "[]" new_IndexPage "[]"]
  by (simp add: demo_colorMaps_def)

section \<open>URLs of fetched entities\<close>

lemma object_set_at:
  "k \<notin> fst ` set ds \<Longrightarrow> object_set (ds @ (k, u) # qs) k v = ds @ (k, v) # qs"
  by (induction ds) auto

lemma prefixed_at:
  "k \<notin> fst ` set ds \<Longrightarrow> prefixed b (ds @ (k, u) # qs) k = b @ u"
  by (simp add: prefixed_def map_of_eq_None_iff [THEN iffD2] map_add_def split: option.splits)

lemma object_hasOwnProperty_own:
  "''hasOwnProperty'' \<notin> fst ` set ps \<Longrightarrow> k \<in> fst ` set ps \<Longrightarrow> object_hasOwnProperty ps k = Inr True"
  by (auto simp: object_hasOwnProperty_def map_of_eq_None_iff split: option.splits)

lemma object_hasOwnProperty_shadowed:
  "''hasOwnProperty'' \<in> fst ` set ps \<Longrightarrow> object_hasOwnProperty ps k = Inl TypeError"
  by (auto simp: object_hasOwnProperty_def map_of_eq_None_iff split: option.splits)

lemma prefix_urls_from:
  "distinct (map fst (ds @ qs)) \<Longrightarrow> ''hasOwnProperty'' \<notin> fst ` set (ds @ qs) \<Longrightarrow>
   prefix_urls b (map fst qs) (ds @ qs) = Inr (ds @ map (\<lambda>(k, u). (k, b @ u)) qs)"
proof (induction qs arbitrary: ds)
  case Nil
  then show ?case by simp
next
  case (Cons q qs)
  obtain k u where q: "q = (k, u)" by (cases q)
  from Cons.prems q have fresh: "k \<notin> fst ` set ds"
    by auto
  have d: "distinct (map fst ((ds @ [(k, b @ u)]) @ qs))"
    using Cons.prems q by auto
  have n: "''hasOwnProperty'' \<notin> fst ` set ((ds @ [(k, b @ u)]) @ qs)"
    using Cons.prems q by auto
  have own: "object_hasOwnProperty (ds @ (k, u) # qs) k = Inr True"
    using Cons.prems(2) q by (intro object_hasOwnProperty_own) auto
  have "prefix_urls b (map fst (q # qs)) (ds @ q # qs)
      = prefix_urls b (map fst qs) ((ds @ [(k, b @ u)]) @ qs)"
    using fresh by (simp add: q own object_set_at prefixed_at)
  also have "\<dots> = Inr ((ds @ [(k, b @ u)]) @ map (\<lambda>(k, u). (k, b @ u)) qs)"
    using d n by (rule Cons.IH)
  finally show ?case by (simp add: q)
qed

lemma prefix_urls_all:
  "distinct (map fst qs) \<Longrightarrow> ''hasOwnProperty'' \<notin> fst ` set qs \<Longrightarrow>
   prefix_urls b (map fst qs) qs = Inr (map (\<lambda>(k, u). (k, b @ u)) qs)"
  using prefix_urls_from [of "[]" qs b] by simp

lemma prefix_urls_shadowed:
  "''hasOwnProperty'' \<in> fst ` set ps \<Longrightarrow> ks \<noteq> [] \<Longrightarrow> prefix_urls b ks ps = Inl TypeError"
  by (cases ks) (simp_all add: object_hasOwnProperty_shadowed)

lemma new_Sample_url: "Sample.url (new_Sample payload (Some b)) = b @ Sample.url payload"
  by (simp add: new_Sample_def truthy_string_def Let_def)

lemma new_ColorMap_url: "ColorMap.url (new_ColorMap colorMap (Some b)) = b @ ColorMap.url colorMap"
  by (simp add: new_ColorMap_def truthy_string_def Let_def)

lemma new_Attribution_built:
  assumes "distinct (map fst (AttributionPayload.urls attribution))"
    and "b = [] \<or> ''hasOwnProperty'' \<notin> fst ` set (AttributionPayload.urls attribution)"
  shows "new_Attribution attribution (Some b)
    = Inr \<lparr>Attribution.index = AttributionPayload.index attribution,
           Attribution.labels = AttributionPayload.labels attribution,
           Attribution.prediction = AttributionPayload.prediction attribution,
           Attribution.width = AttributionPayload.width attribution,
           Attribution.height = AttributionPayload.height attribution,
           Attribution.url = b @ AttributionPayload.url attribution,
           Attribution.urls = map (\<lambda>(k, u). (k, b @ u)) (AttributionPayload.urls attribution),
           sample = None\<rparr>"
proof (cases "b = []")
  case True
  have "map (\<lambda>(k, u). (k, [] @ u)) (AttributionPayload.urls attribution) = AttributionPayload.urls attribution"
    by (induction "AttributionPayload.urls attribution") auto
  with True show ?thesis
    by (simp add: new_Attribution_def truthy_string_def Let_def)
next
  case False
  with assms show ?thesis
    by (simp add: new_Attribution_def truthy_string_def Let_def prefix_urls_all)
qed

lemma new_Attribution_throws:
  assumes "b \<noteq> []" and "''hasOwnProperty'' \<in> fst ` set (AttributionPayload.urls attribution)"
  shows "new_Attribution attribution (Some b) = Inl TypeError"
proof -
  from assms(2) have "map fst (AttributionPayload.urls attribution) \<noteq> []"
    by auto
  with assms show ?thesis
    by (simp add: new_Attribution_def truthy_string_def Let_def prefix_urls_shadowed)
qed

text \<open>
  C4. Whatever the backend answers, the entity that a gateway builds from the answer has each
  URL equal to the configured base URL followed by the relative URL of the answer: the URL of
  a sample, the URL of an attribution and the URL under each color map name of the
  attribution's \<open>urls\<close> (whose names and order stay as received; the names of an object are
  pairwise distinct), and the URL of each color map. With a base URL that is not empty, none
  of them is the base URL twice followed by the relative URL. An attribution is built from
  every answer but one kind: with a base URL that is not empty and a color map named
  \<open>hasOwnProperty\<close> in the answer, the constructor throws, the gateway is rejected and no
  attribution is fetched.
\<close>

theorem fetched_urls_prefixed_once:
  "(dataset_payload backend projectId i = Some payload \<longrightarrow>
      (\<exists>s. DatasetService_getAsync env backend projectId i = Some s \<and>
           Sample.url s = apiBaseUrl env @ Sample.url payload \<and>
           (apiBaseUrl env \<noteq> [] \<longrightarrow>
              Sample.url s \<noteq> apiBaseUrl env @ apiBaseUrl env @ Sample.url payload))) \<and>
   (attributions_payload backend projectId j = Some attribution \<and>
    distinct (map fst (AttributionPayload.urls attribution)) \<longrightarrow>
      (apiBaseUrl env \<noteq> [] \<and> ''hasOwnProperty'' \<in> fst ` set (AttributionPayload.urls attribution) \<longrightarrow>
         new_Attribution attribution (Some (apiBaseUrl env)) = Inl TypeError \<and>
         AttributionsService_getAsync env backend projectId j = None) \<and>
      (apiBaseUrl env = [] \<or> ''hasOwnProperty'' \<notin> fst ` set (AttributionPayload.urls attribution) \<longrightarrow>
         (\<exists>a. AttributionsService_getAsync env backend projectId j = Some a)) \<and>
      (\<forall>a. AttributionsService_getAsync env backend projectId j = Some a \<longrightarrow>
           Attribution.url a = apiBaseUrl env @ AttributionPayload.url attribution \<and>
           Attribution.urls a
             = map (\<lambda>(colorMap, u). (colorMap, apiBaseUrl env @ u)) (AttributionPayload.urls attribution) \<and>
           (apiBaseUrl env \<noteq> [] \<longrightarrow>
              Attribution.url a \<noteq> apiBaseUrl env @ apiBaseUrl env @ AttributionPayload.url attribution \<and>
              (\<forall>colorMap u. (colorMap, u) \<in> set (AttributionPayload.urls attribution) \<longrightarrow>
                 map_of (Attribution.urls a) colorMap = Some (apiBaseUrl env @ u) \<and>
                 map_of (Attribution.urls a) colorMap \<noteq> Some (apiBaseUrl env @ apiBaseUrl env @ u))))) \<and>
   (colorMaps_payload backend = Some sent \<longrightarrow>
      (\<exists>ms. ColorMapsService_getAsync env backend = Some ms \<and>
           map ColorMap.url ms = map (\<lambda>colorMap. apiBaseUrl env @ ColorMap.url colorMap) sent \<and>
           (apiBaseUrl env \<noteq> [] \<longrightarrow>
              list_all2 (\<lambda>m colorMap. ColorMap.url m \<noteq> apiBaseUrl env @ apiBaseUrl env @ ColorMap.url colorMap)
                ms sent)))"
proof (intro conjI impI)
  assume "dataset_payload backend projectId i = Some payload"
  then show "\<exists>s. DatasetService_getAsync env backend projectId i = Some s \<and>
           Sample.url s = apiBaseUrl env @ Sample.url payload \<and>
           (apiBaseUrl env \<noteq> [] \<longrightarrow>
              Sample.url s \<noteq> apiBaseUrl env @ apiBaseUrl env @ Sample.url payload)"
    by (simp add: DatasetService_getAsync_def new_Sample_url)
next
  assume "attributions_payload backend projectId j = Some attribution \<and>
    distinct (map fst (AttributionPayload.urls attribution))"
    and "apiBaseUrl env \<noteq> [] \<and> ''hasOwnProperty'' \<in> fst ` set (AttributionPayload.urls attribution)"
  then show "new_Attribution attribution (Some (apiBaseUrl env)) = Inl TypeError"
    by (simp add: new_Attribution_throws)
next
  assume "attributions_payload backend projectId j = Some attribution \<and>
    distinct (map fst (AttributionPayload.urls attribution))"
    and "apiBaseUrl env \<noteq> [] \<and> ''hasOwnProperty'' \<in> fst ` set (AttributionPayload.urls attribution)"
  then show "AttributionsService_getAsync env backend projectId j = None"
    by (simp add: AttributionsService_getAsync_def new_Attribution_throws)
next
  assume "attributions_payload backend projectId j = Some attribution \<and>
    distinct (map fst (AttributionPayload.urls attribution))"
    and "apiBaseUrl env = [] \<or> ''hasOwnProperty'' \<notin> fst ` set (AttributionPayload.urls attribution)"
  then show "\<exists>a. AttributionsService_getAsync env backend projectId j = Some a"
    by (simp add: AttributionsService_getAsync_def new_Attribution_built)
next
  assume a: "attributions_payload backend projectId j = Some attribution \<and>
    distinct (map fst (AttributionPayload.urls attribution))"
  define b where "b = apiBaseUrl env"
  show "\<forall>a. AttributionsService_getAsync env backend projectId j = Some a \<longrightarrow>
           Attribution.url a = apiBaseUrl env @ AttributionPayload.url attribution \<and>
           Attribution.urls a
             = map (\<lambda>(colorMap, u). (colorMap, apiBaseUrl env @ u)) (AttributionPayload.urls attribution) \<and>
           (apiBaseUrl env \<noteq> [] \<longrightarrow>
              Attribution.url a \<noteq> apiBaseUrl env @ apiBaseUrl env @ AttributionPayload.url attribution \<and>
              (\<forall>colorMap u. (colorMap, u) \<in> set (AttributionPayload.urls attribution) \<longrightarrow>
                 map_of (Attribution.urls a) colorMap = Some (apiBaseUrl env @ u) \<and>
                 map_of (Attribution.urls a) colorMap \<noteq> Some (apiBaseUrl env @ apiBaseUrl env @ u)))"
  proof (intro allI impI)
    fix att
    assume run: "AttributionsService_getAsync env backend projectId j = Some att"
    have free: "b = [] \<or> ''hasOwnProperty'' \<notin> fst ` set (AttributionPayload.urls attribution)"
    proof (rule ccontr)
      assume "\<not> (b = [] \<or> ''hasOwnProperty'' \<notin> fst ` set (AttributionPayload.urls attribution))"
      then have "new_Attribution attribution (Some b) = Inl TypeError"
        by (simp add: new_Attribution_throws)
      with a run show False
        by (simp add: AttributionsService_getAsync_def b_def)
    qed
    from a run new_Attribution_built [OF conjunct2 [OF a] free]
    have u: "Attribution.url att = b @ AttributionPayload.url attribution"
      and us: "Attribution.urls att
        = map (\<lambda>(colorMap, u). (colorMap, b @ u)) (AttributionPayload.urls attribution)"
      by (auto simp: AttributionsService_getAsync_def b_def)
    have look: "map_of (Attribution.urls att) colorMap = Some (b @ u)"
      if "(colorMap, u) \<in> set (AttributionPayload.urls attribution)" for colorMap u
    proof -
      have "map_of (AttributionPayload.urls attribution) colorMap = Some u"
        using a that by simp
      then show ?thesis
        unfolding us by (simp add: map_of_map)
    qed
    from u us look show "Attribution.url att = apiBaseUrl env @ AttributionPayload.url attribution \<and>
           Attribution.urls att
             = map (\<lambda>(colorMap, u). (colorMap, apiBaseUrl env @ u)) (AttributionPayload.urls attribution) \<and>
           (apiBaseUrl env \<noteq> [] \<longrightarrow>
              Attribution.url att \<noteq> apiBaseUrl env @ apiBaseUrl env @ AttributionPayload.url attribution \<and>
              (\<forall>colorMap u. (colorMap, u) \<in> set (AttributionPayload.urls attribution) \<longrightarrow>
                 map_of (Attribution.urls att) colorMap = Some (apiBaseUrl env @ u) \<and>
                 map_of (Attribution.urls att) colorMap \<noteq> Some (apiBaseUrl env @ apiBaseUrl env @ u)))"
      unfolding b_def [symmetric] by simp
  qed
next
  assume "colorMaps_payload backend = Some sent"
  then have run: "ColorMapsService_getAsync env backend
      = Some (map (\<lambda>colorMap. new_ColorMap colorMap (Some (apiBaseUrl env))) sent)"
    by (simp add: ColorMapsService_getAsync_def)
  have "list_all2 (\<lambda>m colorMap. ColorMap.url m \<noteq> apiBaseUrl env @ apiBaseUrl env @ ColorMap.url colorMap)
      (map (\<lambda>colorMap. new_ColorMap colorMap (Some (apiBaseUrl env))) sent) sent"
    if "apiBaseUrl env \<noteq> []"
    using that by (simp add: list_all2_map1 new_ColorMap_url list_all2_same)
  with run show "\<exists>ms. ColorMapsService_getAsync env backend = Some ms \<and>
           map ColorMap.url ms = map (\<lambda>colorMap. apiBaseUrl env @ ColorMap.url colorMap) sent \<and>
           (apiBaseUrl env \<noteq> [] \<longrightarrow>
              list_all2 (\<lambda>m colorMap. ColorMap.url m \<noteq> apiBaseUrl env @ apiBaseUrl env @ ColorMap.url colorMap)
                ms sent)"
    by (simp add: new_ColorMap_url)
qed

theorem fetched_urls_prefixed_once_witness:
  "apiBaseUrl environment \<noteq> [] \<and>
   map_option Sample.url (DatasetService_getAsync environment demo_backend 1 7)
     = Some ''http://localhost:8080/image'' \<and>
   map_option Attribution.url (AttributionsService_getAsync environment demo_backend 1 (Some 7))
     = Some ''http://localhost:8080/heatmap'' \<and>
   map_option Attribution.urls (AttributionsService_getAsync environment demo_backend 1 (Some 7))
     = Some [(''gray'', ''http://localhost:8080/heatmap?colorMap=gray''),
             (''black-fire-red'', ''http://localhost:8080/heatmap?colorMap=black-fire-red'')] \<and>
   map_option (map ColorMap.url) (ColorMapsService_getAsync environment demo_backend)
     = Some [''http://localhost:8080/api/color-maps/gray'',
             ''http://localhost:8080/api/color-maps/black-fire-red'',
             ''http://localhost:8080/api/color-maps/second''] \<and>
   attributions_payload demo_shadowing_backend 1 (Some 3) = Some demo_shadowing_payload \<and>
   new_Attribution demo_shadowing_payload (Some (apiBaseUrl environment)) = Inl TypeError \<and>
   AttributionsService_getAsync environment demo_shadowing_backend 1 (Some 3) = None"
proof -
  have base: "apiBaseUrl environment \<noteq> []"
    by (simp add: environment_def)
  have hs: "dataset_payload demo_backend 1 7 = Some (demo_image 7)"
    by (simp add: demo_backend_def)
  from fetched_urls_prefixed_once [THEN conjunct1, THEN mp, OF hs, of environment]
  obtain s where "DatasetService_getAsync environment demo_backend 1 7 = Some s"
    and "Sample.url s = apiBaseUrl environment @ Sample.url (demo_image 7)"
    by blast
  then have smp: "map_option Sample.url (DatasetService_getAsync environment demo_backend 1 7)
      = Some ''http://localhost:8080/image''"
    by (simp add: environment_def demo_image_def)
  have ha: "attributions_payload demo_backend 1 (Some 7) = Some (demo_payload 7) \<and>
      distinct (map fst (AttributionPayload.urls (demo_payload 7)))"
    by (simp add: demo_backend_def demo_payload_def)
  have free: "apiBaseUrl environment = [] \<or>
      ''hasOwnProperty'' \<notin> fst ` set (AttributionPayload.urls (demo_payload 7))"
    by (simp add: demo_payload_def)
  note att = fetched_urls_prefixed_once [THEN conjunct2, THEN conjunct1, THEN mp, OF ha, of environment]
  from att [THEN conjunct2, THEN conjunct1, THEN mp, OF free]
  obtain a where a: "AttributionsService_getAsync environment demo_backend 1 (Some 7) = Some a"
    by blast
  from att [THEN conjunct2, THEN conjunct2, THEN spec, THEN mp, OF a]
  have "Attribution.url a = apiBaseUrl environment @ AttributionPayload.url (demo_payload 7)"
    and "Attribution.urls a
      = map (\<lambda>(colorMap, u). (colorMap, apiBaseUrl environment @ u)) (AttributionPayload.urls (demo_payload 7))"
    by blast+
  then have au: "map_option Attribution.url (AttributionsService_getAsync environment demo_backend 1 (Some 7))
      = Some ''http://localhost:8080/heatmap''"
    and aus: "map_option Attribution.urls (AttributionsService_getAsync environment demo_backend 1 (Some 7))
      = Some [(''gray'', ''http://localhost:8080/heatmap?colorMap=gray''),
              (''black-fire-red'', ''http://localhost:8080/heatmap?colorMap=black-fire-red'')]"
    unfolding a by (simp_all add: environment_def demo_payload_def)
  have hc: "colorMaps_payload demo_backend = Some demo_colorMaps"
    by (simp add: demo_backend_def)
  from fetched_urls_prefixed_once [THEN conjunct2, THEN conjunct2, THEN mp, OF hc, of environment]
  obtain ms where "ColorMapsService_getAsync environment demo_backend = Some ms"
    and "map ColorMap.url ms = map (\<lambda>colorMap. apiBaseUrl environment @ ColorMap.url colorMap) demo_colorMaps"
    by blast
  then have cm: "map_option (map ColorMap.url) (ColorMapsService_getAsync environment demo_backend)
     = Some [''http://localhost:8080/api/color-maps/gray'',
             ''http://localhost:8080/api/color-maps/black-fire-red'',
             ''http://localhost:8080/api/color-maps/second'']"
    by (simp add: environment_def demo_colorMaps_def)
  have hh: "attributions_payload demo_shadowing_backend 1 (Some 3) = Some demo_shadowing_payload \<and>
      distinct (map fst (AttributionPayload.urls demo_shadowing_payload))"
    by (simp add: demo_shadowing_backend_def demo_shadowing_payload_def)
  have shadow: "apiBaseUrl environment \<noteq> [] \<and>
      ''hasOwnProperty'' \<in> fst ` set (AttributionPayload.urls demo_shadowing_payload)"
    by (simp add: environment_def demo_shadowing_payload_def)
  from fetched_urls_prefixed_once [THEN conjunct2, THEN conjunct1, THEN mp, OF hh,
      THEN conjunct1, THEN mp, OF shadow]
  have thrown: "new_Attribution demo_shadowing_payload (Some (apiBaseUrl environment)) = Inl TypeError \<and>
      AttributionsService_getAsync environment demo_shadowing_backend 1 (Some 3) = None" .
  from base smp au aus cm hh thrown show ?thesis
    by simp
qed

section \<open>Selections\<close>

lemma Promise_all_Some: "Promise_all ps = Some vs \<longleftrightarrow> ps = map Some vs"
proof (induction ps arbitrary: vs)
  case Nil
  show ?case by (cases vs) simp_all
next
  case (Cons q ps)
  note IH = Cons.IH
  show ?case
  proof (cases q)
    case None
    then show ?thesis by (cases vs) simp_all
  next
    case (Some v)
    show ?thesis
    proof (cases vs)
      case Nil
      then show ?thesis using Some by (simp split: option.splits)
    next
      case (Cons v' vs')
      have "Promise_all (q # ps) = Some vs \<longleftrightarrow> v = v' \<and> Promise_all ps = Some vs'"
        unfolding Some Cons by (cases "Promise_all ps") simp_all
      also have "\<dots> \<longleftrightarrow> v = v' \<and> ps = map Some vs'"
        by (simp only: IH)
      also have "\<dots> \<longleftrightarrow> q # ps = map Some vs"
        unfolding Some Cons by simp
      finally show ?thesis .
    qed
  qed
qed

lemma getAsync_each_loaded:
  "project this = Some p \<Longrightarrow>
   getAsync_each service args (this, calls)
     = (Await (map (\<lambda>a. (ident p, a)) args),
        (this, calls @ map (\<lambda>a. (service (ident p) a, this)) args))"
  by (simp add: getAsync_each_def)

lemma getAsync_each_Await:
  assumes "getAsync_each service args (this, calls) = (Await rs, w')"
  shows "(args = [] \<and> rs = [] \<and> w' = (this, calls)) \<or>
         (\<exists>p. project this = Some p \<and> rs = map (\<lambda>a. (ident p, a)) args \<and>
              w' = (this, calls @ map (\<lambda>a. (service (ident p) a, this)) args))"
  using assms by (auto simp: getAsync_each_def split: if_splits option.splits)

lemma getAsync_each_not_Return: "fst (getAsync_each service args w) \<noteq> Return"
  by (cases w) (simp add: getAsync_each_def split: option.splits)

lemma onSelectedAsync_0_loaded:
  "project this = Some p \<Longrightarrow>
   onSelectedAsync_0 (Some e) (this, calls)
     = (Await (map (\<lambda>i. (ident p, i))
                (take 20 (map (\<lambda>d. js_nth (attributionIndices (data d)) (pointIndex d)) (points e)))),
        (this\<lparr>isLoadingSelection := Some True\<rparr>,
         calls @ map (\<lambda>i. (GetAttribution (ident p) i, this\<lparr>isLoadingSelection := Some True\<rparr>))
                  (take 20 (map (\<lambda>d. js_nth (attributionIndices (data d)) (pointIndex d)) (points e)))))"
  by (simp add: onSelectedAsync_0_def Let_def getAsync_each_loaded)

lemma onSelectedAsync_1_loaded:
  "project this = Some p \<Longrightarrow>
   onSelectedAsync_1 atts (this, calls)
     = (Await (map (\<lambda>i. (ident p, i)) (map Attribution.index atts)),
        (this\<lparr>selectedAttributions := Some atts\<rparr>,
         calls @ map (\<lambda>i. (GetSample (ident p) i, this\<lparr>selectedAttributions := Some atts\<rparr>))
                  (map Attribution.index atts)))"
  by (simp add: onSelectedAsync_1_def Let_def getAsync_each_loaded)

lemma onSelectedAsync_run:
  assumes p: "project this = Some p"
    and a: "map (AttributionsService_getAsync env backend (ident p))
              (take 20 (map (\<lambda>d. js_nth (attributionIndices (data d)) (pointIndex d)) (points e)))
            = map Some atts"
    and s: "map (DatasetService_getAsync env backend (ident p)) (map Attribution.index atts)
            = map Some samples"
  shows "onSelectedAsync env backend (Some e) (this, calls)
     = (Fulfilled,
        (this\<lparr>isLoadingSelection := Some False,
               selectedAttributions := Some (map (loop_2 samples) atts)\<rparr>,
         calls
         @ map (\<lambda>i. (GetAttribution (ident p) i, this\<lparr>isLoadingSelection := Some True\<rparr>))
             (take 20 (map (\<lambda>d. js_nth (attributionIndices (data d)) (pointIndex d)) (points e)))
         @ map (\<lambda>i. (GetSample (ident p) i,
                       this\<lparr>isLoadingSelection := Some True, selectedAttributions := Some atts\<rparr>))
             (map Attribution.index atts)))"
proof -
  define idxs where
    "idxs = take 20 (map (\<lambda>d. js_nth (attributionIndices (data d)) (pointIndex d)) (points e))"
  define this1 where "this1 = this\<lparr>isLoadingSelection := Some True\<rparr>"
  define calls1 where "calls1 = calls @ map (\<lambda>i. (GetAttribution (ident p) i, this1)) idxs"
  define this2 where "this2 = this1\<lparr>selectedAttributions := Some atts\<rparr>"
  define calls2 where
    "calls2 = calls1 @ map (\<lambda>i. (GetSample (ident p) i, this2)) (map Attribution.index atts)"
  have step0: "onSelectedAsync_0 (Some e) (this, calls)
      = (Await (map (\<lambda>i. (ident p, i)) idxs), (this1, calls1))"
    unfolding idxs_def this1_def calls1_def by (rule onSelectedAsync_0_loaded [OF p])
  have pa: "Promise_all (map (\<lambda>(projectId, i). AttributionsService_getAsync env backend projectId i)
      (map (\<lambda>i. (ident p, i)) idxs)) = Some atts"
    using a unfolding idxs_def [symmetric] by (simp add: Promise_all_Some comp_def)
  have p1: "project this1 = Some p"
    using p by (simp add: this1_def)
  have step1: "onSelectedAsync_1 atts (this1, calls1)
      = (Await (map (\<lambda>i. (ident p, i)) (map Attribution.index atts)), (this2, calls2))"
    unfolding this2_def calls2_def by (rule onSelectedAsync_1_loaded [OF p1])
  have ps: "Promise_all (map (\<lambda>(projectId, i). DatasetService_getAsync env backend projectId i)
      (map (\<lambda>i. (ident p, i)) (map Attribution.index atts))) = Some samples"
    using s by (simp add: Promise_all_Some comp_def)
  have step2: "onSelectedAsync_2 samples (this2, calls2)
      = (Fulfilled, (this2\<lparr>selectedAttributions := Some (map (loop_2 samples) atts),
                          isLoadingSelection := Some False\<rparr>, calls2))"
    by (simp add: onSelectedAsync_2_def this2_def Let_def)
  have "onSelectedAsync env backend (Some e) (this, calls)
      = (Fulfilled, (this2\<lparr>selectedAttributions := Some (map (loop_2 samples) atts),
                          isLoadingSelection := Some False\<rparr>, calls2))"
    unfolding onSelectedAsync_def step0
    by (simp only: prod.case step.case pa option.case step1 ps step2)
  then show ?thesis
    by (simp add: this2_def this1_def calls2_def calls1_def idxs_def)
qed


lemma fetched_attribution_unjoined:
  "AttributionsService_getAsync env backend projectId i = Some a \<Longrightarrow> a\<lparr>sample := None\<rparr> = a"
  by (auto simp: AttributionsService_getAsync_def new_Attribution_def Let_def
      split: if_splits option.splits sum.splits)

lemma loop_2_index: "Attribution.index (loop_2 samples a) = Attribution.index a"
  by (simp add: loop_2_def)

lemma loop_2_unjoined: "(loop_2 samples a)\<lparr>sample := None\<rparr> = a\<lparr>sample := None\<rparr>"
  by (simp add: loop_2_def)

lemma loop_2_sample:
  "sample (loop_2 samples a) = List.find (\<lambda>s. Sample.index s = Attribution.index a) samples"
  by (simp add: loop_2_def js_first_filter)

lemma demo_selected_project: "project demo_selected = Some demo_project"
  by (simp add: demo_selected_def)

lemma demo_fetch_attribution:
  "AttributionsService_getAsync environment demo_backend projectId (Some n)
     = Some (demo_fetched n)"
  by (simp add: AttributionsService_getAsync_def demo_backend_def demo_payload_def demo_fetched_def
      environment_def new_Attribution_def truthy_string_def object_hasOwnProperty_def prefixed_def
      Let_def)

lemma demo_fetch_sample:
  "n \<noteq> 13 \<Longrightarrow>
   DatasetService_getAsync environment demo_backend projectId n
     = Some (new_Sample (demo_image n) (Some (apiBaseUrl environment)))"
  by (simp add: DatasetService_getAsync_def demo_backend_def)

lemma demo_fetched_index: "Attribution.index (demo_fetched n) = n"
  by (simp add: demo_fetched_def)

text \<open>
  C2. With a project loaded, a selection of more than 20 points is cut to its first 20 points
  before anything is fetched: label 0 resolves the points to attribution indices in the order
  of the event, keeps the first 20, and requests exactly these 20 attributions, in that
  order. When these requests and the requests for the samples succeed, the run completes and
  \<open>selectedAttributions\<close> holds exactly 20 entries; entry \<open>i\<close> is, up to its joined sample, the
  attribution fetched for point \<open>i\<close> of the event. The points after the first 20 are not
  requested at all.
\<close>

theorem onSelected_first_twenty:
  assumes "project this = Some p" and "length (points e) > 20"
  shows "\<exists>idxs.
     idxs = map (\<lambda>d. js_nth (attributionIndices (data d)) (pointIndex d)) (take 20 (points e)) \<and>
     length idxs = 20 \<and>
     onSelectedAsync_0 (Some e) (this, calls)
       = (Await (map (\<lambda>i. (ident p, i)) idxs),
          (this\<lparr>isLoadingSelection := Some True\<rparr>,
           calls @ map (\<lambda>i. (GetAttribution (ident p) i, this\<lparr>isLoadingSelection := Some True\<rparr>)) idxs)) \<and>
     (\<forall>atts samples.
        map (AttributionsService_getAsync env backend (ident p)) idxs = map Some atts \<and>
        map (DatasetService_getAsync env backend (ident p)) (map Attribution.index atts) = map Some samples \<longrightarrow>
        (\<exists>sel w'.
           onSelectedAsync env backend (Some e) (this, calls) = (Fulfilled, w') \<and>
           selectedAttributions (fst w') = Some sel \<and> length sel = 20 \<and>
           (\<forall>i<20. AttributionsService_getAsync env backend (ident p)
                      (js_nth (attributionIndices (data (points e ! i))) (pointIndex (points e ! i)))
                    = Some ((sel ! i)\<lparr>sample := None\<rparr>))))"
proof -
  define idxs where
    "idxs = map (\<lambda>d. js_nth (attributionIndices (data d)) (pointIndex d)) (take 20 (points e))"
  have tm: "take 20 (map (\<lambda>d. js_nth (attributionIndices (data d)) (pointIndex d)) (points e)) = idxs"
    by (simp add: idxs_def take_map)
  have len: "length idxs = 20"
    using assms(2) by (simp add: idxs_def)
  have step0: "onSelectedAsync_0 (Some e) (this, calls)
       = (Await (map (\<lambda>i. (ident p, i)) idxs),
          (this\<lparr>isLoadingSelection := Some True\<rparr>,
           calls @ map (\<lambda>i. (GetAttribution (ident p) i, this\<lparr>isLoadingSelection := Some True\<rparr>)) idxs))"
    using onSelectedAsync_0_loaded [OF assms(1), of e calls] unfolding tm .
  have run: "\<exists>sel w'.
           onSelectedAsync env backend (Some e) (this, calls) = (Fulfilled, w') \<and>
           selectedAttributions (fst w') = Some sel \<and> length sel = 20 \<and>
           (\<forall>i<20. AttributionsService_getAsync env backend (ident p)
                      (js_nth (attributionIndices (data (points e ! i))) (pointIndex (points e ! i)))
                    = Some ((sel ! i)\<lparr>sample := None\<rparr>))"
    if a: "map (AttributionsService_getAsync env backend (ident p)) idxs = map Some atts"
      and s: "map (DatasetService_getAsync env backend (ident p)) (map Attribution.index atts) = map Some samples"
    for atts samples
  proof -
    from a have la: "length atts = 20"
      using len by (metis length_map)
    have each: "AttributionsService_getAsync env backend (ident p)
                      (js_nth (attributionIndices (data (points e ! i))) (pointIndex (points e ! i)))
                    = Some ((map (loop_2 samples) atts ! i)\<lparr>sample := None\<rparr>)" if i: "i < 20" for i
    proof -
      have "idxs ! i = js_nth (attributionIndices (data (points e ! i))) (pointIndex (points e ! i))"
        using i assms(2) by (simp add: idxs_def)
      moreover have "map (AttributionsService_getAsync env backend (ident p)) idxs ! i = map Some atts ! i"
        by (simp only: a)
      then have f: "AttributionsService_getAsync env backend (ident p) (idxs ! i) = Some (atts ! i)"
        using i len la by simp
      moreover have "(map (loop_2 samples) atts ! i)\<lparr>sample := None\<rparr> = atts ! i"
        using i la fetched_attribution_unjoined [OF f] by (simp add: loop_2_unjoined)
      ultimately show ?thesis by simp
    qed
    from a have a': "map (AttributionsService_getAsync env backend (ident p))
        (take 20 (map (\<lambda>d. js_nth (attributionIndices (data d)) (pointIndex d)) (points e))) = map Some atts"
      by (simp only: tm)
    from onSelectedAsync_run [OF assms(1) a' s, of calls] la each show ?thesis
      by simp
  qed
  from len step0 run show ?thesis
    unfolding idxs_def [symmetric] by blast
qed


theorem onSelected_first_twenty_witness:
  "project demo_selected = Some demo_project \<and> length (points demo_selection) = 25 \<and>
   (\<exists>sel w'.
      onSelectedAsync environment demo_backend (Some demo_selection) (demo_selected, []) = (Fulfilled, w') \<and>
      selectedAttributions (fst w') = Some sel \<and> length sel = 20 \<and>
      Attribution.index (sel ! 0) = 100 \<and> Attribution.index (sel ! 19) = 233)"
proof -
  have p: "project demo_selected = Some demo_project"
    by (rule demo_selected_project)
  have l: "20 < length (points demo_selection)"
    by (simp add: demo_selection_def)
  have l25: "length (points demo_selection) = 25"
    by (simp add: demo_selection_def)
  define ns :: "int list" where "ns = take 20 (attributionIndices demo_trace)"
  have ns: "ns = [100, 107, 114, 121, 128, 135, 142, 149, 156, 163, 170, 177, 184, 191, 198, 205, 212, 219, 226, 233]"
    by (simp add: ns_def demo_trace_def)
  define atts where "atts = map demo_fetched ns"
  define samples where "samples = map (\<lambda>n. new_Sample (demo_image n) (Some (apiBaseUrl environment))) ns"
  have idxs: "map (\<lambda>d. js_nth (attributionIndices (data d)) (pointIndex d)) (take 20 (points demo_selection))
      = map Some ns"
    unfolding ns by (simp add: demo_selection_def demo_trace_def js_nth_def)
  have a: "map (AttributionsService_getAsync environment demo_backend (ident demo_project))
        (map (\<lambda>d. js_nth (attributionIndices (data d)) (pointIndex d)) (take 20 (points demo_selection)))
      = map Some atts"
    unfolding idxs atts_def by (simp add: demo_fetch_attribution comp_def)
  have "map Attribution.index atts = ns"
    unfolding atts_def by (simp add: demo_fetched_index comp_def)
  then have s: "map (DatasetService_getAsync environment demo_backend (ident demo_project))
        (map Attribution.index atts) = map Some samples"
    unfolding samples_def by (simp add: ns demo_fetch_sample)
  from onSelected_first_twenty [OF p l, of "[]" environment demo_backend]
  have "\<exists>sel w'.
      onSelectedAsync environment demo_backend (Some demo_selection) (demo_selected, []) = (Fulfilled, w') \<and>
      selectedAttributions (fst w') = Some sel \<and> length sel = 20 \<and>
      (\<forall>i<20. AttributionsService_getAsync environment demo_backend (ident demo_project)
                 (js_nth (attributionIndices (data (points demo_selection ! i))) (pointIndex (points demo_selection ! i)))
               = Some ((sel ! i)\<lparr>sample := None\<rparr>))"
    using a s by blast
  then obtain sel w' where
    run: "onSelectedAsync environment demo_backend (Some demo_selection) (demo_selected, []) = (Fulfilled, w')"
    and sel: "selectedAttributions (fst w') = Some sel" "length sel = 20"
    and each: "\<forall>i<20. AttributionsService_getAsync environment demo_backend (ident demo_project)
                 (js_nth (attributionIndices (data (points demo_selection ! i))) (pointIndex (points demo_selection ! i)))
               = Some ((sel ! i)\<lparr>sample := None\<rparr>)"
    by blast
  have f0: "js_nth (attributionIndices (data (points demo_selection ! 0))) (pointIndex (points demo_selection ! 0))
      = Some 100"
    by (simp add: demo_selection_def demo_trace_def js_nth_def)
  have f19: "js_nth (attributionIndices (data (points demo_selection ! 19))) (pointIndex (points demo_selection ! 19))
      = Some 233"
    by (simp add: demo_selection_def demo_trace_def js_nth_def)
  from each have "AttributionsService_getAsync environment demo_backend (ident demo_project) (Some 100)
      = Some ((sel ! 0)\<lparr>sample := None\<rparr>)"
    unfolding f0 [symmetric] by simp
  then have "Attribution.index ((sel ! 0)\<lparr>sample := None\<rparr>) = 100"
    unfolding demo_fetch_attribution using demo_fetched_index by (metis option.inject)
  then have i0: "Attribution.index (sel ! 0) = 100"
    by simp
  from each have "AttributionsService_getAsync environment demo_backend (ident demo_project) (Some 233)
      = Some ((sel ! 19)\<lparr>sample := None\<rparr>)"
    unfolding f19 [symmetric] by simp
  then have "Attribution.index ((sel ! 19)\<lparr>sample := None\<rparr>) = 233"
    unfolding demo_fetch_attribution using demo_fetched_index by (metis option.inject)
  then have i19: "Attribution.index (sel ! 19) = 233"
    by simp
  from p l25 run sel i0 i19 show ?thesis
    by blast
qed

text \<open>
  C5 (as the code has it). Without an event, \<open>onSelectedAsync\<close> returns at once: the page and the
  recorded calls are what they were. With an event whose list of points is empty the method
  runs to its end without calling a gateway, and leaves \<open>selectedAttributions\<close> the empty list
  and \<open>isLoadingSelection\<close> false, whatever they were before; nothing else changes.
\<close>

theorem onSelected_nothing_selected:
  "onSelectedAsync env backend None w = (Fulfilled, w) \<and>
   onSelectedAsync env backend (Some \<lparr>points = []\<rparr>) (this, calls)
     = (Fulfilled, (this\<lparr>isLoadingSelection := Some False, selectedAttributions := Some []\<rparr>, calls))"
  by (cases w)
    (simp add: onSelectedAsync_def onSelectedAsync_0_def onSelectedAsync_1_def onSelectedAsync_2_def
      getAsync_each_def Let_def)

text \<open>
  An event with an empty list of points is not a no-op: a page that shows one attribution and
  has never loaded a selection ends with an empty \<open>selectedAttributions\<close> and with
  \<open>isLoadingSelection\<close> set to false.
\<close>

theorem onSelected_empty_selection_counterexample:
  "selectedAttributions demo_shown = Some [demo_attribution] \<and>
   selectedAttributions (fst (snd (onSelectedAsync environment demo_backend (Some \<lparr>points = []\<rparr>) (demo_shown, []))))
     = Some [] \<and>
   selectedAttributions (fst (snd (onSelectedAsync environment demo_backend (Some \<lparr>points = []\<rparr>) (demo_shown, []))))
     \<noteq> selectedAttributions demo_shown \<and>
   isLoadingSelection demo_shown = None \<and>
   isLoadingSelection (fst (snd (onSelectedAsync environment demo_backend (Some \<lparr>points = []\<rparr>) (demo_shown, []))))
     = Some False"
  by (simp add: onSelectedAsync_def onSelectedAsync_0_def onSelectedAsync_1_def onSelectedAsync_2_def
      getAsync_each_def Let_def demo_shown_def demo_selected_def demo_page_def new_IndexPage_def)

text \<open>
  C6 (as the code has it). With a project loaded and the attribution batch resolved, label 1
  stores the resolved attributions and then requests the samples: one request per resolved
  attribution, in the order of the attributions, for that attribution's index. All of them come
  after the attribution requests, and each is made from a page that already holds the resolved
  attributions. The requests are pairwise different when the indices of the resolved
  attributions are; an index that occurs several times is requested as often. When the
  sample requests succeed the run completes with exactly these calls added.
\<close>

theorem onSelected_sample_calls:
  assumes "project this = Some p"
    and "map (AttributionsService_getAsync env backend (ident p))
           (take 20 (map (\<lambda>d. js_nth (attributionIndices (data d)) (pointIndex d)) (points e)))
         = map Some atts"
  shows "\<exists>page0 first second.
     snd (onSelectedAsync_0 (Some e) (this, calls)) = (page0, calls @ first) \<and>
     map fst first
       = map (GetAttribution (ident p))
           (take 20 (map (\<lambda>d. js_nth (attributionIndices (data d)) (pointIndex d)) (points e))) \<and>
     onSelectedAsync_1 atts (page0, calls @ first)
       = (Await (map (\<lambda>a. (ident p, Attribution.index a)) atts),
          (page0\<lparr>selectedAttributions := Some atts\<rparr>, calls @ first @ second)) \<and>
     map fst second = map (\<lambda>a. GetSample (ident p) (Attribution.index a)) atts \<and>
     map snd second = map (\<lambda>a. page0\<lparr>selectedAttributions := Some atts\<rparr>) atts \<and>
     (distinct (map Attribution.index atts) \<longrightarrow> distinct (map fst second)) \<and>
     (\<forall>samples.
        map (DatasetService_getAsync env backend (ident p)) (map Attribution.index atts) = map Some samples \<longrightarrow>
        (\<exists>page'. onSelectedAsync env backend (Some e) (this, calls)
                   = (Fulfilled, (page', calls @ first @ second))))"
proof -
  define idxs where
    "idxs = take 20 (map (\<lambda>d. js_nth (attributionIndices (data d)) (pointIndex d)) (points e))"
  define page0 where "page0 = this\<lparr>isLoadingSelection := Some True\<rparr>"
  define first where "first = map (\<lambda>i. (GetAttribution (ident p) i, page0)) idxs"
  define second where
    "second = map (\<lambda>a. (GetSample (ident p) (Attribution.index a), page0\<lparr>selectedAttributions := Some atts\<rparr>)) atts"
  have s0: "snd (onSelectedAsync_0 (Some e) (this, calls)) = (page0, calls @ first)"
    by (simp add: onSelectedAsync_0_loaded [OF assms(1)] page0_def first_def idxs_def)
  have f: "map fst first = map (GetAttribution (ident p)) idxs"
    by (simp add: first_def comp_def)
  have p0: "project page0 = Some p"
    using assms(1) by (simp add: page0_def)
  have s1: "onSelectedAsync_1 atts (page0, calls @ first)
       = (Await (map (\<lambda>a. (ident p, Attribution.index a)) atts),
          (page0\<lparr>selectedAttributions := Some atts\<rparr>, calls @ first @ second))"
    by (simp add: onSelectedAsync_1_loaded [OF p0] second_def comp_def)
  have g: "map fst second = map (\<lambda>a. GetSample (ident p) (Attribution.index a)) atts"
    by (simp add: second_def comp_def)
  have h: "map snd second = map (\<lambda>a. page0\<lparr>selectedAttributions := Some atts\<rparr>) atts"
    by (simp add: second_def comp_def)
  have d: "distinct (map fst second)" if "distinct (map Attribution.index atts)"
  proof -
    have "map fst second = map (GetSample (ident p)) (map Attribution.index atts)"
      by (simp add: g comp_def)
    moreover have "inj (GetSample (ident p))"
      by (simp add: inj_def)
    ultimately show ?thesis
      using that by (simp only: distinct_map) (simp add: inj_on_def)
  qed
  have r: "\<exists>page'. onSelectedAsync env backend (Some e) (this, calls)
                   = (Fulfilled, (page', calls @ first @ second))"
    if "map (DatasetService_getAsync env backend (ident p)) (map Attribution.index atts) = map Some samples"
    for samples
    using onSelectedAsync_run [OF assms(1) assms(2) that, of calls]
    by (simp add: first_def second_def page0_def idxs_def comp_def)
  from s0 f s1 g h d r show ?thesis
    unfolding idxs_def by blast
qed

theorem onSelected_sample_calls_witness:
  "project demo_selected = Some demo_project \<and>
   map fst (snd (snd (onSelectedAsync environment demo_backend (Some demo_unmatched) (demo_selected, []))))
     = [GetAttribution 1 (Some 7), GetAttribution 1 (Some 99), GetSample 1 7, GetSample 1 99]"
proof -
  have p: "project demo_selected = Some demo_project"
    by (rule demo_selected_project)
  have a: "map (AttributionsService_getAsync environment demo_backend (ident demo_project))
           (take 20 (map (\<lambda>d. js_nth (attributionIndices (data d)) (pointIndex d)) (points demo_unmatched)))
         = map Some [demo_fetched 7,
                     demo_fetched 99]"
    by (simp add: demo_unmatched_def demo_pair_trace_def js_nth_def demo_fetch_attribution)
  from onSelected_sample_calls [OF p a, of "[]"] p show ?thesis
    by (simp add: onSelectedAsync_def onSelectedAsync_0_def onSelectedAsync_1_def onSelectedAsync_2_def
      getAsync_each_def Let_def demo_unmatched_def demo_pair_trace_def js_nth_def demo_project_def
      demo_fetch_attribution demo_fetched_index demo_fetch_sample comp_def)
qed

text \<open>
  Two selected points with the same attribution index 7 make two requests for sample 7.
\<close>

theorem onSelected_duplicate_sample_calls_counterexample:
  "map fst (snd (snd (onSelectedAsync environment demo_backend (Some demo_twice) (demo_selected, []))))
     = [GetAttribution 1 (Some 7), GetAttribution 1 (Some 7), GetSample 1 7, GetSample 1 7] \<and>
   \<not> distinct (drop 2 (map fst (snd (snd
       (onSelectedAsync environment demo_backend (Some demo_twice) (demo_selected, []))))))"
  by (simp add: onSelectedAsync_def onSelectedAsync_0_def onSelectedAsync_1_def onSelectedAsync_2_def
      getAsync_each_def Let_def demo_twice_def demo_pair_trace_def js_nth_def demo_project_def
      demo_selected_def demo_fetch_attribution demo_fetched_index demo_fetch_sample comp_def)

lemma onSelectedAsync_0_eq:
  "onSelectedAsync_0 (Some e) (this, calls)
     = getAsync_each GetAttribution
         (take 20 (map (\<lambda>d. js_nth (attributionIndices (data d)) (pointIndex d)) (points e)))
         (this\<lparr>isLoadingSelection := Some True\<rparr>, calls)"
  by (simp add: onSelectedAsync_0_def Let_def)

lemma onSelectedAsync_1_eq:
  "onSelectedAsync_1 atts (this, calls)
     = getAsync_each GetSample (map Attribution.index atts) (this\<lparr>selectedAttributions := Some atts\<rparr>, calls)"
  by (simp add: onSelectedAsync_1_def Let_def)

lemma onSelectedAsync_2_joins:
  "selectedAttributions this = Some atts \<Longrightarrow>
   onSelectedAsync_2 samples (this, calls)
     = (Fulfilled, (this\<lparr>selectedAttributions := Some (map (loop_2 samples) atts),
                         isLoadingSelection := Some False\<rparr>, calls))"
  by (simp add: onSelectedAsync_2_def Let_def)

lemma onSelectedAsync_Fulfilled:
  assumes run: "onSelectedAsync env backend (Some e) (this, calls) = (Fulfilled, w')"
  shows "\<exists>atts samples.
     selectedAttributions (fst w') = Some (map (loop_2 samples) atts) \<and>
     (atts = [] \<and> samples = [] \<or>
      (\<exists>p. project this = Some p \<and>
           map (DatasetService_getAsync env backend (ident p)) (map Attribution.index atts) = map Some samples))"
proof -
  define this1 where "this1 = this\<lparr>isLoadingSelection := Some True\<rparr>"
  obtain st0 w0 where s0: "onSelectedAsync_0 (Some e) (this, calls) = (st0, w0)"
    by (cases "onSelectedAsync_0 (Some e) (this, calls)")
  have "fst (onSelectedAsync_0 (Some e) (this, calls)) \<noteq> Return"
    unfolding onSelectedAsync_0_eq by (rule getAsync_each_not_Return)
  with s0 have "st0 \<noteq> Return"
    by simp
  moreover have "st0 \<noteq> Throw err" for err
    using run s0 by (auto simp: onSelectedAsync_def)
  ultimately obtain rs where st0: "st0 = Await rs"
    by (cases st0) auto
  from s0 st0 have "getAsync_each GetAttribution
         (take 20 (map (\<lambda>d. js_nth (attributionIndices (data d)) (pointIndex d)) (points e)))
         (this1, calls) = (Await rs, w0)"
    by (simp add: onSelectedAsync_0_eq this1_def)
  from getAsync_each_Await [OF this] obtain calls0 where w0: "w0 = (this1, calls0)"
    by auto
  obtain atts where pa:
    "Promise_all (map (\<lambda>(projectId, i). AttributionsService_getAsync env backend projectId i) rs) = Some atts"
    using run s0 st0
    by (cases "Promise_all (map (\<lambda>(projectId, i). AttributionsService_getAsync env backend projectId i) rs)")
      (auto simp: onSelectedAsync_def)
  define this2 where "this2 = this1\<lparr>selectedAttributions := Some atts\<rparr>"
  obtain st1 w1 where s1: "onSelectedAsync_1 atts w0 = (st1, w1)"
    by (cases "onSelectedAsync_1 atts w0")
  have "fst (onSelectedAsync_1 atts w0) \<noteq> Return"
    unfolding w0 onSelectedAsync_1_eq by (rule getAsync_each_not_Return)
  with s1 have "st1 \<noteq> Return"
    by simp
  moreover have "st1 \<noteq> Throw err" for err
    using run s0 st0 pa s1 by (auto simp: onSelectedAsync_def)
  ultimately obtain rs1 where st1: "st1 = Await rs1"
    by (cases st1) auto
  from s1 st1 have g1: "getAsync_each GetSample (map Attribution.index atts) (this2, calls0) = (Await rs1, w1)"
    by (simp add: onSelectedAsync_1_eq w0 this2_def)
  obtain samples where ps:
    "Promise_all (map (\<lambda>(projectId, i). DatasetService_getAsync env backend projectId i) rs1) = Some samples"
    using run s0 st0 pa s1 st1
    by (cases "Promise_all (map (\<lambda>(projectId, i). DatasetService_getAsync env backend projectId i) rs1)")
      (auto simp: onSelectedAsync_def)
  from getAsync_each_Await [OF g1] obtain calls1 where w1: "w1 = (this2, calls1)"
    by auto
  have "onSelectedAsync env backend (Some e) (this, calls) = onSelectedAsync_2 samples w1"
    unfolding onSelectedAsync_def s0 st0
    by (simp only: prod.case step.case pa option.case s1 st1 ps)
  also have "\<dots> = (Fulfilled, (this2\<lparr>selectedAttributions := Some (map (loop_2 samples) atts),
                         isLoadingSelection := Some False\<rparr>, calls1))"
    unfolding w1 by (rule onSelectedAsync_2_joins) (simp add: this2_def)
  finally have sel: "selectedAttributions (fst w') = Some (map (loop_2 samples) atts)"
    using run by auto
  from getAsync_each_Await [OF g1]
  have "atts = [] \<and> samples = [] \<or>
      (\<exists>p. project this = Some p \<and>
           map (DatasetService_getAsync env backend (ident p)) (map Attribution.index atts) = map Some samples)"
  proof (elim disjE conjE exE)
    assume "map Attribution.index atts = []" "rs1 = []"
    with ps show ?thesis by simp
  next
    fix p
    assume p: "project this2 = Some p" and r: "rs1 = map (\<lambda>a. (ident p, a)) (map Attribution.index atts)"
    from ps have "map (\<lambda>(projectId, i). DatasetService_getAsync env backend projectId i) rs1 = map Some samples"
      by (simp only: Promise_all_Some)
    then have "map (DatasetService_getAsync env backend (ident p)) (map Attribution.index atts) = map Some samples"
      unfolding r by (simp add: comp_def)
    moreover from p have "project this = Some p"
      by (simp add: this2_def this1_def)
    ultimately show ?thesis by blast
  qed
  with sel show ?thesis by blast
qed

text \<open>
  C7. After a completed run on an event, each entry of \<open>selectedAttributions\<close> carries as its
  sample the first of the fetched samples whose index equals the entry's index: if the entry
  has a sample, that sample was fetched in this run and has the entry's index; if it has none,
  no fetched sample has the entry's index. The fetched samples are what the dataset gateway
  answered for the indices of the entries, in order. The join itself never throws: on a page
  that holds attributions, label 2 completes whatever the samples are.
\<close>

theorem onSelected_join:
  assumes "onSelectedAsync env backend (Some e) (this, calls) = (Fulfilled, w')"
  shows "\<exists>sel samples.
     selectedAttributions (fst w') = Some sel \<and>
     length samples = length sel \<and>
     (\<forall>j<length sel. \<exists>p. project this = Some p \<and>
        DatasetService_getAsync env backend (ident p) (Attribution.index (sel ! j)) = Some (samples ! j)) \<and>
     (\<forall>i<length sel.
        sample (sel ! i) = List.find (\<lambda>s. Sample.index s = Attribution.index (sel ! i)) samples \<and>
        (case sample (sel ! i) of
           Some s \<Rightarrow> Sample.index s = Attribution.index (sel ! i) \<and> s \<in> set samples
         | None \<Rightarrow> (\<forall>s\<in>set samples. Sample.index s \<noteq> Attribution.index (sel ! i)))) \<and>
     (\<forall>others page stored made.
        selectedAttributions page = Some stored \<longrightarrow> fst (onSelectedAsync_2 others (page, made)) = Fulfilled)"
proof -
  from onSelectedAsync_Fulfilled [OF assms] obtain atts samples where
    sel: "selectedAttributions (fst w') = Some (map (loop_2 samples) atts)"
    and fetched: "atts = [] \<and> samples = [] \<or>
      (\<exists>p. project this = Some p \<and>
           map (DatasetService_getAsync env backend (ident p)) (map Attribution.index atts) = map Some samples)"
    by blast
  define sel where "sel = map (loop_2 samples) atts"
  have len: "length samples = length sel"
    using fetched by (auto simp: sel_def dest: arg_cong [where f = length])
  have each: "\<exists>p. project this = Some p \<and>
        DatasetService_getAsync env backend (ident p) (Attribution.index (sel ! j)) = Some (samples ! j)"
    if j: "j < length sel" for j
  proof -
    from j have "atts \<noteq> []"
      by (auto simp: sel_def)
    with fetched obtain p where p: "project this = Some p"
      and m: "map (DatasetService_getAsync env backend (ident p)) (map Attribution.index atts) = map Some samples"
      by blast
    from m have "map (DatasetService_getAsync env backend (ident p)) (map Attribution.index atts) ! j
        = map Some samples ! j"
      by (simp only:)
    then have "DatasetService_getAsync env backend (ident p) (Attribution.index (atts ! j)) = Some (samples ! j)"
      using j len by (simp add: sel_def)
    then have "DatasetService_getAsync env backend (ident p) (Attribution.index (sel ! j)) = Some (samples ! j)"
      using j by (simp add: sel_def loop_2_index)
    with p show ?thesis by blast
  qed
  have joined: "sample (sel ! i) = List.find (\<lambda>s. Sample.index s = Attribution.index (sel ! i)) samples \<and>
        (case sample (sel ! i) of
           Some s \<Rightarrow> Sample.index s = Attribution.index (sel ! i) \<and> s \<in> set samples
         | None \<Rightarrow> (\<forall>s\<in>set samples. Sample.index s \<noteq> Attribution.index (sel ! i)))"
    if i: "i < length sel" for i
  proof -
    have f: "sample (sel ! i) = List.find (\<lambda>s. Sample.index s = Attribution.index (sel ! i)) samples"
      using i by (simp add: sel_def loop_2_sample loop_2_index)
    show ?thesis
    proof (cases "sample (sel ! i)")
      case None
      with f have "List.find (\<lambda>s. Sample.index s = Attribution.index (sel ! i)) samples = None"
        by simp
      then have "\<forall>s\<in>set samples. Sample.index s \<noteq> Attribution.index (sel ! i)"
        by (auto simp: find_None_iff)
      with None f show ?thesis by simp
    next
      case (Some s)
      with f have "List.find (\<lambda>s. Sample.index s = Attribution.index (sel ! i)) samples = Some s"
        by simp
      then have "Sample.index s = Attribution.index (sel ! i) \<and> s \<in> set samples"
        by (auto simp: find_Some_iff)
      with Some f show ?thesis by simp
    qed
  qed
  have total: "\<forall>others page stored made.
        selectedAttributions page = Some stored \<longrightarrow> fst (onSelectedAsync_2 others (page, made)) = Fulfilled"
    by (simp add: onSelectedAsync_2_joins)
  from sel len each joined total show ?thesis
    unfolding sel_def [symmetric] by blast
qed

theorem onSelected_join_witness:
  "fst (onSelectedAsync environment demo_backend (Some demo_unmatched) (demo_selected, [])) = Fulfilled \<and>
   map_option (map Attribution.index)
     (selectedAttributions (fst (snd (onSelectedAsync environment demo_backend (Some demo_unmatched) (demo_selected, [])))))
     = Some [7, 99] \<and>
   map_option (map (\<lambda>a. map_option Sample.index (sample a)))
     (selectedAttributions (fst (snd (onSelectedAsync environment demo_backend (Some demo_unmatched) (demo_selected, [])))))
     = Some [Some 7, None]"
proof -
  have eval: "fst (onSelectedAsync environment demo_backend (Some demo_unmatched) (demo_selected, [])) = Fulfilled"
    by (simp add: onSelectedAsync_def onSelectedAsync_0_def onSelectedAsync_1_def onSelectedAsync_2_def
      getAsync_each_def Let_def demo_unmatched_def demo_pair_trace_def js_nth_def demo_project_def
      demo_selected_def demo_fetch_attribution demo_fetched_index demo_fetch_sample comp_def)
  then have run: "onSelectedAsync environment demo_backend (Some demo_unmatched) (demo_selected, [])
      = (Fulfilled, snd (onSelectedAsync environment demo_backend (Some demo_unmatched) (demo_selected, [])))"
    by (simp add: prod_eq_iff)
  have sel: "selectedAttributions (fst (snd (onSelectedAsync environment demo_backend (Some demo_unmatched) (demo_selected, []))))
      = Some (map (loop_2 [new_Sample (demo_image 7) (Some (apiBaseUrl environment)),
                           new_Sample (demo_image 99) (Some (apiBaseUrl environment))])
               [demo_fetched 7,
                demo_fetched 99])"
    by (simp add: onSelectedAsync_def onSelectedAsync_0_def onSelectedAsync_1_def onSelectedAsync_2_def
      getAsync_each_def Let_def demo_unmatched_def demo_pair_trace_def js_nth_def demo_project_def
      demo_selected_def demo_fetch_attribution demo_fetched_index demo_fetch_sample comp_def)
  from onSelected_join [OF run] eval show ?thesis
    unfolding sel
    by (simp add: loop_2_def demo_fetched_index js_first_def new_Sample_def demo_image_def Let_def)
qed

end
